theory Spec2Isabelle
  imports Complex_Main "HOL-Library.AList"
begin

section \<open>Values exchanged with the clients\<close>

text \<open>
  A message is whatever \<^verbatim>\<open>JSON.parse\<close> returns, and the handlers store message fields
  without checking their type, so fields are JSON values. \<open>JUndefined\<close> is the value of
  a property that is absent. Numbers are the integer-valued ones. A string is a text of
  characters up to U+00FF, one \<open>char\<close> each; an object is the list of its own properties,
  with unique keys. The properties an object inherits (\<^verbatim>\<open>constructor\<close>, \<^verbatim>\<open>toString\<close>,
  ...) are left out of the lookups. The names the handlers read from a message are none
  of them. A room is looked up under a code that \<^verbatim>\<open>genCode\<close> made or \<^verbatim>\<open>toUpperCase\<close>
  returned, or that a socket was bound to, which is one of these, and no inherited name
  is in upper case. The ids the server mints are clock readings and suffixes in base
  36, taken not to spell \<^verbatim>\<open>constructor\<close>, the one inherited name in those digits; the
  value an object of players then inherits under a name has neither socket nor payload,
  and the handlers treat it as they treat no value.
\<close>

datatype json =
    JUndefined
  | JNull
  | JBool bool
  | JNum int
  | JStr string
  | JArr "json list"
  | JObj "(string \<times> json) list"

text \<open>Property access \<^verbatim>\<open>v.k\<close> on a value that is neither null nor undefined.\<close>

fun fld :: "json \<Rightarrow> string \<Rightarrow> json" where
  "fld (JObj kvs) k = (case map_of kvs k of Some v \<Rightarrow> v | None \<Rightarrow> JUndefined)"
| "fld _ k = JUndefined"

text \<open>What \<^verbatim>\<open>if (v)\<close>, \<^verbatim>\<open>!v\<close> and \<^verbatim>\<open>v || d\<close> test.\<close>

fun truthy :: "json \<Rightarrow> bool" where
  "truthy JUndefined = False"
| "truthy JNull = False"
| "truthy (JBool b) = b"
| "truthy (JNum n) = (n \<noteq> 0)"
| "truthy (JStr s) = (s \<noteq> [])"
| "truthy (JArr xs) = True"
| "truthy (JObj kvs) = True"

text \<open>\<^verbatim>\<open>v || {}\<close>\<close>

definition orEmptyObject :: "json \<Rightarrow> json" where
  "orEmptyObject v = (if truthy v then v else JObj [])"

text \<open>The exception a handler can throw.\<close>

datatype error = TypeError

subsection \<open>Strings\<close>

definition digitChars :: string where
  "digitChars = ''0123456789abcdefghijklmnopqrstuvwxyz''"

text \<open>\<^verbatim>\<open>n.toString(36)\<close> and \<^verbatim>\<open>n.toString()\<close> for a non-negative integer \<open>n\<close>.\<close>

function toString36 :: "nat \<Rightarrow> string" where
  "toString36 n =
     (if n < 36 then [digitChars ! n] else toString36 (n div 36) @ [digitChars ! (n mod 36)])"
  by pat_completeness auto
termination
  by (relation "measure id") auto

function toString10 :: "nat \<Rightarrow> string" where
  "toString10 n =
     (if n < 10 then [digitChars ! n] else toString10 (n div 10) @ [digitChars ! (n mod 10)])"
  by pat_completeness auto
termination
  by (relation "measure id") auto

text \<open>
  \<open>JNum n\<close> is the number that the numeral \<open>n\<close> denotes in JSON: the double nearest to
  \<open>n\<close>, a tie going to the even mantissa, and infinity from \<open>2^1024\<close> on. \<open>bits\<close> is the
  length in binary, and a double of at least \<open>2^53\<close> is \<open>m * 2^q\<close> with \<open>m\<close> of 53 bits.
\<close>

function bits :: "nat \<Rightarrow> nat" where
  "bits n = (if n = 0 then 0 else Suc (bits (n div 2)))"
  by pat_completeness auto
termination
  by (relation "measure id") auto

definition nearest :: "nat \<Rightarrow> nat" where
  "nearest n =
     (let q = bits n - 53; m = n div 2 ^ q; r = n mod 2 ^ q
      in if 2 ^ q < 2 * r \<or> (2 * r = 2 ^ q \<and> odd m) then (m + 1) * 2 ^ q else m * 2 ^ q)"

text \<open>
  The text of a number of at least \<open>2^53\<close> has the fewest digits that still denote it.
  \<open>roundsTo x v\<close>: the double nearest to the integer \<open>v\<close> is \<open>x\<close>, where the doubles next
  to \<open>x = m * 2^q\<close> are \<open>2^q\<close> away, the one below a power of two half of that, and a tie
  goes to the even \<open>m\<close>; all is scaled by 4 to stay in the integers.
\<close>

definition roundsTo :: "nat \<Rightarrow> nat \<Rightarrow> bool" where
  "roundsTo x v =
     (let q = bits x - 53;
          lo = 4 * x - (if x = 2 ^ (bits x - 1) then 2 ^ q else 2 ^ (q + 1));
          hi = 4 * x + 2 ^ (q + 1)
      in if even (x div 2 ^ q) then lo \<le> 4 * v \<and> 4 * v \<le> hi else lo < 4 * v \<and> 4 * v < hi)"

text \<open>
  The two integers of \<open>k\<close> significant digits on either side of \<open>x\<close>, the nearer first,
  of two equally near the one with the even digits first.
\<close>

definition candidates :: "nat \<Rightarrow> nat \<Rightarrow> nat list" where
  "candidates x k =
     (let p = 10 ^ (length (toString10 x) - k);
          lo = (x div p) * p;
          hi = lo + p
      in if x - lo < hi - x \<or> (x - lo = hi - x \<and> even (lo div p)) then [lo, hi] else [hi, lo])"

text \<open>Seventeen digits tell any two numbers apart.\<close>

definition shortest :: "nat \<Rightarrow> nat" where
  "shortest x =
     (case filter (roundsTo x) (concat (map (candidates x) [1..<18])) of
        [] \<Rightarrow> x
      | v # vs \<Rightarrow> v)"

text \<open>The form \<^verbatim>\<open>d.ddde+n\<close>, taken from 22 digits on.\<close>

definition exponential :: "nat \<Rightarrow> string" where
  "exponential v =
     (let ds = toString10 v;
          m = rev (dropWhile (\<lambda>c. c = CHR ''0'') (rev ds))
      in hd m # (if tl m = [] then [] else CHR ''.'' # tl m) @ ''e+'' @ toString10 (length ds - 1))"

definition natToString :: "nat \<Rightarrow> string" where
  "natToString n =
     (if nearest n < 2 ^ 53 then toString10 (nearest n)
      else if 2 ^ 1024 \<le> nearest n then ''Infinity''
      else if shortest (nearest n) < 10 ^ 21 then toString10 (shortest (nearest n))
      else exponential (shortest (nearest n)))"

definition intToString :: "int \<Rightarrow> string" where
  "intToString i =
     (if i < 0 then CHR ''-'' # natToString (nat (- i)) else natToString (nat i))"

fun joinWith :: "string \<Rightarrow> string list \<Rightarrow> string" where
  "joinWith sep [] = []"
| "joinWith sep [x] = x"
| "joinWith sep (x # y # ys) = x @ sep @ joinWith sep (y # ys)"

text \<open>The values of a list of results, or the first error among them.\<close>

fun sequence :: "(error + 'a) list \<Rightarrow> error + 'a list" where
  "sequence [] = Inr []"
| "sequence (x # xs) =
     (case x of
        Inl err \<Rightarrow> Inl err
      | Inr v \<Rightarrow> (case sequence xs of Inl err \<Rightarrow> Inl err | Inr vs \<Rightarrow> Inr (v # vs)))"

text \<open>
  The key a value denotes when it indexes an object, \<^verbatim>\<open>obj[v]\<close>: the value converted
  to a string. An array is joined with commas, a null or undefined element giving the
  empty text. An object is converted by its \<^verbatim>\<open>toString\<close> method and then its
  \<^verbatim>\<open>valueOf\<close> method: the inherited ones give \<^verbatim>\<open>[object Object]\<close>; an own property
  \<^verbatim>\<open>toString\<close> hides the inherited method and, coming from JSON, is no function, and
  then neither the own nor the inherited \<^verbatim>\<open>valueOf\<close> gives a primitive value, and the
  conversion throws.
\<close>

fun propKey :: "json \<Rightarrow> error + string" where
  "propKey JUndefined = Inr ''undefined''"
| "propKey JNull = Inr ''null''"
| "propKey (JBool b) = Inr (if b then ''true'' else ''false'')"
| "propKey (JNum n) = Inr (intToString n)"
| "propKey (JStr s) = Inr s"
| "propKey (JArr xs) =
     (case sequence (map (\<lambda>x. if x = JNull \<or> x = JUndefined then Inr [] else propKey x) xs) of
        Inl err \<Rightarrow> Inl err
      | Inr ts \<Rightarrow> Inr (joinWith '','' ts))"
| "propKey (JObj kvs) =
     (if map_of kvs ''toString'' \<noteq> None then Inl TypeError else Inr ''[object Object]'')"

text \<open>
  \<^verbatim>\<open>trim\<close> removes the white space and the line terminators at both ends. Up to
  U+00FF these are tab, line feed, vertical tab, form feed, carriage return, space and
  the no-break space U+00A0.
\<close>

definition isWhiteSpace :: "char \<Rightarrow> bool" where
  "isWhiteSpace c \<longleftrightarrow> (of_char c :: nat) \<in> {9, 10, 11, 12, 13, 32, 160}"

definition trim :: "string \<Rightarrow> string" where
  "trim s = rev (dropWhile isWhiteSpace (rev (dropWhile isWhiteSpace s)))"

text \<open>
  \<^verbatim>\<open>toUpperCase\<close> replaces each character by its capital in the Unicode tables. Up to
  U+00FF: the letters a to z, and U+00E0 to U+00FE without the division sign U+00F7,
  have their capital 32 places before them; the capital of the sharp s U+00DF is SS;
  the capitals of the micro sign U+00B5 and of U+00FF are U+039C and U+0178, beyond
  U+00FF; every other character is its own capital. The upper-case form of a text with
  U+00B5 or U+00FF is therefore no text of this model, and the key of no room in a
  store of this model: it is \<open>None\<close> here.
\<close>

definition toUpperCaseChar :: "char \<Rightarrow> string option" where
  "toUpperCaseChar c =
     (if (97 \<le> (of_char c :: nat) \<and> (of_char c :: nat) \<le> 122)
         \<or> (224 \<le> (of_char c :: nat) \<and> (of_char c :: nat) \<le> 254 \<and> (of_char c :: nat) \<noteq> 247)
      then Some [char_of ((of_char c :: nat) - 32)]
      else if (of_char c :: nat) = 223 then Some ''SS''
      else if (of_char c :: nat) = 181 \<or> (of_char c :: nat) = 255 then None
      else Some [c])"

fun toUpperCase :: "string \<Rightarrow> string option" where
  "toUpperCase [] = Some []"
| "toUpperCase (c # cs) =
     (case toUpperCaseChar c of
        None \<Rightarrow> None
      | Some u \<Rightarrow> (case toUpperCase cs of None \<Rightarrow> None | Some us \<Rightarrow> Some (u @ us)))"

subsection \<open>Objects\<close>

text \<open>
  An object is kept as the list of its properties in the order of their creation:
  assigning to a property that exists keeps its place (\<open>AList.update\<close>,
  \<open>AList.map_entry\<close>), a new one comes last, \<^verbatim>\<open>delete\<close> removes it. \<^verbatim>\<open>Object.entries\<close>
  and \<^verbatim>\<open>Object.values\<close> enumerate the properties whose key is an array index first, in
  ascending order of the index, and then the others in the order of their creation. An
  array index is the decimal text of an integer from 0 to \<open>2^32 - 2\<close>. A store written
  to the file and read back has its properties created in the order of their
  enumeration, which enumerates as before.
\<close>

definition decimalValue :: "string \<Rightarrow> nat" where
  "decimalValue k = foldl (\<lambda>n c. 10 * n + ((of_char c :: nat) - 48)) 0 k"

definition isArrayIndex :: "string \<Rightarrow> bool" where
  "isArrayIndex k \<longleftrightarrow>
     k \<noteq> [] \<and> list_all (\<lambda>c. 48 \<le> (of_char c :: nat) \<and> (of_char c :: nat) \<le> 57) k
     \<and> (length k = 1 \<or> hd k \<noteq> CHR ''0'') \<and> decimalValue k < 4294967295"

definition ownEntries :: "(string \<times> 'a) list \<Rightarrow> (string \<times> 'a) list" where
  "ownEntries kvs =
     sort_key (\<lambda>(k, v). decimalValue k) (filter (\<lambda>(k, v). isArrayIndex k) kvs)
     @ filter (\<lambda>(k, v). \<not> isArrayIndex k) kvs"

section \<open>The two stores and the connections\<close>

text \<open>
  The durable store, \<^verbatim>\<open>db.rooms\<close>:
  \<^verbatim>\<open>{ [code]: { masterName, sessionName, createdAt, players: { [id]: { name, fichaData } } } }\<close>.
  A room read from the file may lack \<^verbatim>\<open>players\<close>, which the handlers allow for.
\<close>

record dbPlayer =
  name :: json
  fichaData :: json

record dbRoom =
  masterName :: json
  sessionName :: json
  createdAt :: int
  players :: "(string \<times> dbPlayer) list option"

text \<open>\<^verbatim>\<open>room.players || {}\<close>\<close>

definition playersOrEmpty :: "dbRoom \<Rightarrow> (string \<times> dbPlayer) list" where
  "playersOrEmpty r = (case players r of None \<Rightarrow> [] | Some ps \<Rightarrow> ps)"

type_synonym connId = nat

text \<open>
  The live registry, \<^verbatim>\<open>liveRooms\<close>:
  \<^verbatim>\<open>{ [code]: { masterWs: WebSocket|null, players: { [id]: { ws, name, fichaData } } } }\<close>.
  A socket is referred to by its identity.
\<close>

record livePlayer =
  ws :: "connId option"
  live_name :: json
  live_fichaData :: json

record liveRoom =
  masterWs :: "connId option"
  live_players :: "(string \<times> livePlayer) list"

datatype readyState = CONNECTING | OPEN | CLOSING | CLOSED

text \<open>A socket with the fields the server attaches to it: \<^verbatim>\<open>_alive\<close>, \<^verbatim>\<open>_role\<close>,
  \<^verbatim>\<open>_roomCode\<close>, \<^verbatim>\<open>_name\<close>, \<^verbatim>\<open>_playerId\<close>. The room code and the player id are null
  (\<open>None\<close>) or a string.\<close>

record conn =
  readyState :: readyState
  alive :: bool
  role :: json
  roomCode :: "string option"
  conn_name :: json
  playerId :: "string option"

record snapEntry =
  snap_id :: string
  snap_name :: json
  online :: bool

datatype outMsg =
    RoomCreated string json json
  | RoomJoined string json string
  | RoomError string
  | PlayersUpdate "(string \<times> snapEntry) list"
  | FichaUpdate json json
  | SendFicha
  | MasterLeft

text \<open>
  The state of the process: the durable store in memory (\<open>db_rooms\<close>) and its file
  (\<open>disk\<close>), the live registry, the sockets, and every message sent so far, in order,
  with the socket it was sent on.
\<close>

record state =
  db_rooms :: "(string \<times> dbRoom) list"
  disk :: "(string \<times> dbRoom) list"
  liveRooms :: "string \<rightharpoonup> liveRoom"
  conns :: "connId \<Rightarrow> conn"
  outbox :: "(connId \<times> outMsg) list"

text \<open>
  What a handler reads from outside the state: the clock \<^verbatim>\<open>Date.now()\<close>, the
  successive values of \<^verbatim>\<open>Math.random()\<close>, the text
  \<^verbatim>\<open>Math.random().toString(36).substr(2, 5)\<close> that \<^verbatim>\<open>genId\<close> appends, and whether
  \<^verbatim>\<open>fs.writeFileSync\<close> succeeds.
\<close>

record env =
  now :: nat
  random :: "nat \<Rightarrow> rat"
  randomSuffix :: string
  writeOk :: bool

section \<open>Helpers\<close>

subsection \<open>\<^verbatim>\<open>genCode\<close> and \<^verbatim>\<open>genId\<close>\<close>

definition chars :: string where
  "chars = ''ABCDEFGHJKLMNPQRSTUVWXYZ23456789''"

text \<open>\<^verbatim>\<open>s[i]\<close> appended to a string: out of range it is \<^verbatim>\<open>undefined\<close>, appended as text.\<close>

definition charAt :: "string \<Rightarrow> int \<Rightarrow> string" where
  "charAt s i = (if 0 \<le> i \<and> i < int (length s) then [s ! nat i] else ''undefined'')"

text \<open>
  The loop of \<^verbatim>\<open>genCode\<close>; \<open>k\<close> counts the calls of \<^verbatim>\<open>Math.random()\<close> made so far.
  A draw is a rational number: the product with the length, a power of two, is exact.
\<close>

function genCode_loop :: "(nat \<Rightarrow> rat) \<Rightarrow> nat \<Rightarrow> nat \<Rightarrow> string \<Rightarrow> string" where
  "genCode_loop rnd k i c =
     (if i < 4
      then genCode_loop rnd (Suc k) (Suc i)
             (c @ charAt chars \<lfloor>rnd k * of_nat (length chars)\<rfloor>)
      else c)"
  by pat_completeness auto
termination
  by (relation "measure (\<lambda>(rnd, k, i, c). 4 - i)") auto

definition genCode :: "(nat \<Rightarrow> rat) \<Rightarrow> nat \<Rightarrow> string" where
  "genCode rnd k = genCode_loop rnd k 0 ''VALVE-''"

definition genId :: "env \<Rightarrow> string" where
  "genId e = toString36 (now e) @ randomSuffix e"

text \<open>
  The loop of \<^verbatim>\<open>create_room\<close>,
  \<^verbatim>\<open>do { code = genCode(); attempts++; } while (db.rooms[code] && attempts < 20)\<close>,
  returning the code and the number of attempts. Each attempt draws four random numbers.
\<close>

function pickCode :: "(string \<times> dbRoom) list \<Rightarrow> (nat \<Rightarrow> rat) \<Rightarrow> nat \<Rightarrow> string \<times> nat" where
  "pickCode rooms rnd attempts =
     (if map_of rooms (genCode rnd (4 * attempts)) \<noteq> None \<and> Suc attempts < 20
      then pickCode rooms rnd (Suc attempts)
      else (genCode rnd (4 * attempts), Suc attempts))"
  by pat_completeness auto
termination
  by (relation "measure (\<lambda>(rooms, rnd, attempts). 20 - attempts)") auto

subsection \<open>Sending\<close>

definition isOpen :: "state \<Rightarrow> connId \<Rightarrow> bool" where
  "isOpen s c \<longleftrightarrow> readyState (conns s c) = OPEN"

definition send :: "connId \<Rightarrow> outMsg \<Rightarrow> state \<Rightarrow> state" where
  "send c data s = (if isOpen s c then s\<lparr>outbox := outbox s @ [(c, data)]\<rparr> else s)"

text \<open>
  One step of \<^verbatim>\<open>broadcastRoom\<close>: the message goes to a socket that is attached, is not
  the excluded one and is open.
\<close>

definition sendUnlessExcluded :: "connId option \<Rightarrow> outMsg \<Rightarrow> connId option \<Rightarrow> state \<Rightarrow> state" where
  "sendUnlessExcluded target data exclude s =
     (case target of
        None \<Rightarrow> s
      | Some c \<Rightarrow> if Some c \<noteq> exclude \<and> isOpen s c then s\<lparr>outbox := outbox s @ [(c, data)]\<rparr> else s)"

definition broadcastRoom :: "string \<Rightarrow> outMsg \<Rightarrow> connId option \<Rightarrow> state \<Rightarrow> state" where
  "broadcastRoom code data exclude s =
     (case liveRooms s code of
        None \<Rightarrow> s
      | Some room \<Rightarrow>
          fold (\<lambda>(pid, p). sendUnlessExcluded (ws p) data exclude)
            (ownEntries (live_players room))
            (sendUnlessExcluded (masterWs room) data exclude s))"

definition playersSnapshot :: "string \<Rightarrow> state \<Rightarrow> (string \<times> snapEntry) list" where
  "playersSnapshot code s =
     (case liveRooms s code of
        None \<Rightarrow> []
      | Some room \<Rightarrow>
          map (\<lambda>(pid, p).
                (pid, \<lparr>snap_id = pid, snap_name = live_name p,
                       online = (case ws p of None \<Rightarrow> False | Some c \<Rightarrow> isOpen s c)\<rparr>))
            (ownEntries (live_players room)))"

subsection \<open>\<^verbatim>\<open>saveDB\<close>\<close>

text \<open>A failed write is logged and changes nothing.\<close>

definition saveDB :: "env \<Rightarrow> state \<Rightarrow> state" where
  "saveDB e s = (if writeOk e then s\<lparr>disk := db_rooms s\<rparr> else s)"

section \<open>Messages\<close>

text \<open>
  The text of the \<^verbatim>\<open>room_error\<close> message; its accented letters are U+00E3 and U+00F3.
\<close>

definition room_not_found :: string where
  "room_not_found =
     ''Sala n'' @ [CHR 0xE3] @ ''o encontrada. Verifique o c'' @ [CHR 0xF3] @ ''digo.''"

subsection \<open>\<^verbatim>\<open>create_room\<close>\<close>

definition create_room :: "env \<Rightarrow> connId \<Rightarrow> json \<Rightarrow> state \<Rightarrow> state" where
  "create_room e sock msg s =
     (if \<not> truthy (fld msg ''masterName'') \<or> \<not> truthy (fld msg ''sessionName'') then s
      else
        let code = fst (pickCode (db_rooms s) (random e) 0);
            s1 = s\<lparr>db_rooms :=
                    AList.update code
                      \<lparr>masterName = fld msg ''masterName'', sessionName = fld msg ''sessionName'',
                       createdAt = int (now e), players = Some []\<rparr>
                      (db_rooms s)\<rparr>;
            s2 = saveDB e s1;
            s3 = s2\<lparr>liveRooms := (liveRooms s2)(code \<mapsto> \<lparr>masterWs = Some sock, live_players = []\<rparr>),
                    conns := (conns s2)(sock := (conns s2 sock)
                               \<lparr>role := JStr ''master'', roomCode := Some code,
                                conn_name := fld msg ''masterName''\<rparr>)\<rparr>
        in send sock (RoomCreated code (fld msg ''sessionName'') (fld msg ''masterName'')) s3)"

subsection \<open>\<^verbatim>\<open>join_room\<close>\<close>

text \<open>The players of a room restored from the durable store, none of them connected.\<close>

definition restorePlayers :: "dbRoom \<Rightarrow> (string \<times> livePlayer) list" where
  "restorePlayers dbRoom =
     fold (\<lambda>(pid, p).
            AList.update pid
              \<lparr>ws = None, live_name = name p, live_fichaData = orEmptyObject (fichaData p)\<rparr>)
       (ownEntries (playersOrEmpty dbRoom)) []"

text \<open>\<^verbatim>\<open>liveRooms[code].players[pid] = p\<close>, for a room that is in the registry.\<close>

definition setLivePlayer :: "string \<Rightarrow> string \<Rightarrow> livePlayer \<Rightarrow> state \<Rightarrow> state" where
  "setLivePlayer code pid p s =
     (case liveRooms s code of
        None \<Rightarrow> s
      | Some room \<Rightarrow>
          s\<lparr>liveRooms := (liveRooms s)(code \<mapsto>
               room\<lparr>live_players := AList.update pid p (live_players room)\<rparr>)\<rparr>)"

text \<open>The part of \<^verbatim>\<open>join_room\<close> that follows the lookup of the room.\<close>

definition join_known :: "env \<Rightarrow> connId \<Rightarrow> json \<Rightarrow> string \<Rightarrow> dbRoom \<Rightarrow> state \<Rightarrow> state" where
  "join_known e sock playerName code dbRoom s =
     (let s1 = (case liveRooms s code of
                  None \<Rightarrow> s\<lparr>liveRooms := (liveRooms s)(code \<mapsto>
                             \<lparr>masterWs = None, live_players = restorePlayers dbRoom\<rparr>)\<rparr>
                | Some room \<Rightarrow> s);
          pid = genId e;
          s2 = setLivePlayer code pid
                 \<lparr>ws = Some sock, live_name = playerName, live_fichaData = JObj []\<rparr> s1;
          s3 = s2\<lparr>conns := (conns s2)(sock := (conns s2 sock)
                    \<lparr>role := JStr ''player'', roomCode := Some code, conn_name := playerName,
                     playerId := Some pid\<rparr>)\<rparr>;
          s4 = s3\<lparr>db_rooms :=
                    AList.map_entry code
                      (\<lambda>r. r\<lparr>players := Some (AList.update pid
                                \<lparr>name = playerName, fichaData = JObj []\<rparr> (playersOrEmpty r))\<rparr>)
                      (db_rooms s3)\<rparr>;
          s5 = saveDB e s4;
          s6 = send sock (RoomJoined code (sessionName dbRoom) pid) s5
      in broadcastRoom code (PlayersUpdate (playersSnapshot code s6)) None s6)"

text \<open>
  \<^verbatim>\<open>roomCode.trim().toUpperCase()\<close> throws for a value that is no string: the guard
  before it lets only truthy values through, and neither a number, nor \<^verbatim>\<open>true\<close>, nor
  an array or object from JSON has a method \<^verbatim>\<open>trim\<close>.
\<close>

definition join_room :: "env \<Rightarrow> connId \<Rightarrow> json \<Rightarrow> state \<Rightarrow> error + state" where
  "join_room e sock msg s =
     (if \<not> truthy (fld msg ''playerName'') \<or> \<not> truthy (fld msg ''roomCode'') then Inr s
      else case fld msg ''roomCode'' of
        JStr rc \<Rightarrow>
          (case toUpperCase (trim rc) of
             None \<Rightarrow> Inr (send sock (RoomError room_not_found) s)
           | Some code \<Rightarrow>
               (case map_of (db_rooms s) code of
                  None \<Rightarrow> Inr (send sock (RoomError room_not_found) s)
                | Some dbRoom \<Rightarrow>
                    Inr (join_known e sock (fld msg ''playerName'') code dbRoom s)))
      | _ \<Rightarrow> Inl TypeError)"

subsection \<open>\<^verbatim>\<open>reconnect\<close>\<close>

text \<open>The part of \<^verbatim>\<open>reconnect\<close> that follows the lookup of the room.\<close>

definition reconnect_known :: "env \<Rightarrow> connId \<Rightarrow> json \<Rightarrow> string \<Rightarrow> dbRoom \<Rightarrow> state \<Rightarrow> state" where
  "reconnect_known e sock msg code dbRoom s =
     (let s1 = (case liveRooms s code of
                  None \<Rightarrow> s\<lparr>liveRooms := (liveRooms s)(code \<mapsto>
                             \<lparr>masterWs = None, live_players = []\<rparr>)\<rparr>
                | Some room \<Rightarrow> s);
          s2 = s1\<lparr>conns := (conns s1)(sock := (conns s1 sock)
                    \<lparr>roomCode := Some code, conn_name := fld msg ''name'',
                     role := fld msg ''role''\<rparr>)\<rparr>
      in if fld msg ''role'' = JStr ''master'' then
           let s3 = (case liveRooms s2 code of
                       None \<Rightarrow> s2
                     | Some room \<Rightarrow>
                         s2\<lparr>liveRooms := (liveRooms s2)(code \<mapsto> room\<lparr>masterWs := Some sock\<rparr>)\<rparr>);
               s4 = send sock (RoomCreated code (sessionName dbRoom) (fld msg ''name'')) s3
           in send sock (PlayersUpdate (playersSnapshot code s4)) s4
         else
           let pid = genId e;
               s3 = s2\<lparr>conns := (conns s2)(sock := (conns s2 sock)\<lparr>playerId := Some pid\<rparr>)\<rparr>;
               s4 = setLivePlayer code pid
                      \<lparr>ws = Some sock, live_name = fld msg ''name'', live_fichaData = JObj []\<rparr> s3;
               s5 = send sock (RoomJoined code (sessionName dbRoom) pid) s4
           in broadcastRoom code (PlayersUpdate (playersSnapshot code s5)) None s5)"

text \<open>
  \<^verbatim>\<open>roomCode?.toUpperCase()\<close> is undefined for null and undefined and the upper-cased
  text for a string; any other value has no such method and the call throws. The
  handler returns when the result is undefined or empty or has no room.
\<close>

definition reconnect :: "env \<Rightarrow> connId \<Rightarrow> json \<Rightarrow> state \<Rightarrow> error + state" where
  "reconnect e sock msg s =
     (case fld msg ''roomCode'' of
        JUndefined \<Rightarrow> Inr s
      | JNull \<Rightarrow> Inr s
      | JStr rc \<Rightarrow>
          (case toUpperCase rc of
             None \<Rightarrow> Inr s
           | Some code \<Rightarrow>
               if code = [] then Inr s
               else case map_of (db_rooms s) code of
                 None \<Rightarrow> Inr s
               | Some dbRoom \<Rightarrow> Inr (reconnect_known e sock msg code dbRoom s))
      | _ \<Rightarrow> Inl TypeError)"

subsection \<open>\<^verbatim>\<open>ficha_data\<close> and \<^verbatim>\<open>request_ficha\<close>\<close>

text \<open>\<^verbatim>\<open>ws._playerId\<close> as a property key and as a message field: null or the id.\<close>

definition idKey :: "string option \<Rightarrow> string" where
  "idKey p = (case p of None \<Rightarrow> ''null'' | Some pid \<Rightarrow> pid)"

definition idJson :: "string option \<Rightarrow> json" where
  "idJson p = (case p of None \<Rightarrow> JNull | Some pid \<Rightarrow> JStr pid)"

text \<open>\<^verbatim>\<open>!ws._roomCode\<close> fails for a non-empty string only.\<close>

definition boundCode :: "conn \<Rightarrow> string option" where
  "boundCode c = (case roomCode c of None \<Rightarrow> None | Some code \<Rightarrow> if code = [] then None else Some code)"

definition ficha_data :: "connId \<Rightarrow> json \<Rightarrow> state \<Rightarrow> state" where
  "ficha_data sock msg s =
     (if role (conns s sock) \<noteq> JStr ''player'' then s
      else case boundCode (conns s sock) of
        None \<Rightarrow> s
      | Some code \<Rightarrow>
          (case liveRooms s code of
             None \<Rightarrow> s
           | Some room \<Rightarrow>
               let pid = idKey (playerId (conns s sock));
                   s1 = s\<lparr>liveRooms := (liveRooms s)(code \<mapsto>
                          room\<lparr>live_players :=
                            AList.map_entry pid (\<lambda>p. p\<lparr>live_fichaData := fld msg ''fichaData''\<rparr>)
                              (live_players room)\<rparr>)\<rparr>;
                   s2 = s1\<lparr>db_rooms :=
                          AList.map_entry code
                            (\<lambda>r. case players r of
                                   None \<Rightarrow> r
                                 | Some ps \<Rightarrow>
                                     r\<lparr>players := Some (AList.map_entry pid
                                          (\<lambda>p. p\<lparr>fichaData := fld msg ''fichaData''\<rparr>) ps)\<rparr>)
                            (db_rooms s1)\<rparr>
               in case masterWs room of
                    None \<Rightarrow> s2
                  | Some m \<Rightarrow>
                      if isOpen s2 m
                      then send m (FichaUpdate (idJson (playerId (conns s sock)))
                                     (fld msg ''fichaData'')) s2
                      else s2))"

text \<open>\<^verbatim>\<open>db.rooms[code]?.players?.[key]?.fichaData || {}\<close>\<close>

definition cachedFicha :: "state \<Rightarrow> string \<Rightarrow> string \<Rightarrow> json" where
  "cachedFicha s code key =
     (case map_of (db_rooms s) code of
        None \<Rightarrow> JObj []
      | Some r \<Rightarrow>
          (case map_of (playersOrEmpty r) key of
             None \<Rightarrow> JObj []
           | Some p \<Rightarrow> orEmptyObject (fichaData p)))"

text \<open>\<^verbatim>\<open>player?.ws?.readyState === WebSocket.OPEN\<close>, giving the socket.\<close>

definition openSocketOf :: "state \<Rightarrow> liveRoom \<Rightarrow> string \<Rightarrow> connId option" where
  "openSocketOf s room key =
     (case map_of (live_players room) key of
        None \<Rightarrow> None
      | Some p \<Rightarrow>
          (case ws p of
             None \<Rightarrow> None
           | Some c \<Rightarrow> if isOpen s c then Some c else None))"

text \<open>
  \<^verbatim>\<open>room.players[playerId]\<close> converts the id to a key, which can throw; the second
  conversion, in the lookup of the cached payload, is of the same value.
\<close>

definition request_ficha :: "connId \<Rightarrow> json \<Rightarrow> state \<Rightarrow> error + state" where
  "request_ficha sock msg s =
     (if role (conns s sock) \<noteq> JStr ''master'' then Inr s
      else case boundCode (conns s sock) of
        None \<Rightarrow> Inr s
      | Some code \<Rightarrow>
          (case liveRooms s code of
             None \<Rightarrow> Inr s
           | Some room \<Rightarrow>
               (case propKey (fld msg ''playerId'') of
                  Inl err \<Rightarrow> Inl err
                | Inr key \<Rightarrow>
                    (case openSocketOf s room key of
                       Some c \<Rightarrow> Inr (send c SendFicha s)
                     | None \<Rightarrow>
                         Inr (send sock
                                (FichaUpdate (fld msg ''playerId'') (cachedFicha s code key)) s)))))"

subsection \<open>\<^verbatim>\<open>handleMsg\<close> and the \<^verbatim>\<open>message\<close> event\<close>

definition handleMsg :: "env \<Rightarrow> connId \<Rightarrow> json \<Rightarrow> state \<Rightarrow> error + state" where
  "handleMsg e sock msg s =
     (if msg = JNull \<or> msg = JUndefined then Inl TypeError
      else if fld msg ''type'' = JStr ''create_room'' then Inr (create_room e sock msg s)
      else if fld msg ''type'' = JStr ''join_room'' then join_room e sock msg s
      else if fld msg ''type'' = JStr ''reconnect'' then reconnect e sock msg s
      else if fld msg ''type'' = JStr ''ficha_data'' then Inr (ficha_data sock msg s)
      else if fld msg ''type'' = JStr ''request_ficha'' then request_ficha sock msg s
      else if fld msg ''type'' = JStr ''pong''
        then Inr (s\<lparr>conns := (conns s)(sock := (conns s sock)\<lparr>alive := True\<rparr>)\<rparr>)
      else Inr s)"

text \<open>
  The \<^verbatim>\<open>message\<close> event: the text is parsed (\<open>None\<close> when it is not JSON) and handled;
  an exception of either is caught and logged.
\<close>

definition onMessage :: "env \<Rightarrow> connId \<Rightarrow> json option \<Rightarrow> state \<Rightarrow> state" where
  "onMessage e sock parsed s =
     (case parsed of
        None \<Rightarrow> s
      | Some msg \<Rightarrow> (case handleMsg e sock msg s of Inl err \<Rightarrow> s | Inr s' \<Rightarrow> s'))"

section \<open>Connections, timers and restart\<close>

text \<open>The \<^verbatim>\<open>connection\<close> event.\<close>

definition onConnection :: "connId \<Rightarrow> state \<Rightarrow> state" where
  "onConnection sock s =
     s\<lparr>conns := (conns s)(sock :=
          \<lparr>readyState = OPEN, alive = True, role = JNull, roomCode = None, conn_name = JNull,
           playerId = None\<rparr>)\<rparr>"

text \<open>
  \<^verbatim>\<open>handleDisconnect\<close>, and the \<^verbatim>\<open>close\<close> event that calls it, by which time the
  socket is closed.
\<close>

definition handleDisconnect :: "connId \<Rightarrow> state \<Rightarrow> state" where
  "handleDisconnect sock s =
     (case boundCode (conns s sock) of
        None \<Rightarrow> s
      | Some code \<Rightarrow>
          (case liveRooms s code of
             None \<Rightarrow> s
           | Some room \<Rightarrow>
               if role (conns s sock) = JStr ''master'' then
                 broadcastRoom code MasterLeft None
                   (s\<lparr>liveRooms := (liveRooms s)(code \<mapsto> room\<lparr>masterWs := None\<rparr>)\<rparr>)
               else if role (conns s sock) = JStr ''player''
                       \<and> playerId (conns s sock) \<noteq> None \<and> playerId (conns s sock) \<noteq> Some []
               then
                 let s1 = s\<lparr>liveRooms := (liveRooms s)(code \<mapsto>
                            room\<lparr>live_players :=
                              AList.map_entry (idKey (playerId (conns s sock))) (\<lambda>p. p\<lparr>ws := None\<rparr>)
                                (live_players room)\<rparr>)\<rparr>
                 in broadcastRoom code (PlayersUpdate (playersSnapshot code s1)) None s1
               else s))"

definition onClose :: "connId \<Rightarrow> state \<Rightarrow> state" where
  "onClose sock s =
     handleDisconnect sock (s\<lparr>conns := (conns s)(sock := (conns s sock)\<lparr>readyState := CLOSED\<rparr>)\<rparr>)"

text \<open>The timer that saves the store every 10 seconds.\<close>

definition saveTimer :: "env \<Rightarrow> state \<Rightarrow> state" where
  "saveTimer e s = saveDB e s"

text \<open>
  The retention sweeper, run every hour: the loop over \<^verbatim>\<open>Object.entries(db.rooms)\<close>,
  with the flag \<^verbatim>\<open>changed\<close>, then the save.
\<close>

definition ttl :: int where
  "ttl = 48 * 3600 * 1000"

definition sweepEntry :: "int \<Rightarrow> string \<times> dbRoom \<Rightarrow> state \<times> bool \<Rightarrow> state \<times> bool" where
  "sweepEntry cutoff entry acc =
     (if createdAt (snd entry) < cutoff
      then ((fst acc)\<lparr>db_rooms := AList.delete (fst entry) (db_rooms (fst acc)),
                      liveRooms := (liveRooms (fst acc))(fst entry := None)\<rparr>, True)
      else acc)"

definition sweep :: "env \<Rightarrow> state \<Rightarrow> state" where
  "sweep e s =
     (let r = fold (sweepEntry (int (now e) - ttl)) (ownEntries (db_rooms s)) (s, False)
      in if snd r then saveDB e (fst r) else fst r)"

text \<open>
  A process start: the store is read from the file, the registry is empty, no socket is
  open and nothing has been sent.
\<close>

definition closedConn :: conn where
  "closedConn =
     \<lparr>readyState = CLOSED, alive = False, role = JNull, roomCode = None, conn_name = JNull,
      playerId = None\<rparr>"

definition start :: "(string \<times> dbRoom) list \<Rightarrow> state" where
  "start file =
     \<lparr>db_rooms = file, disk = file, liveRooms = Map.empty, conns = (\<lambda>c. closedConn),
      outbox = []\<rparr>"

definition restart :: "state \<Rightarrow> state" where
  "restart s = start (disk s)"

section \<open>A session used in the examples\<close>

text \<open>
  Ana creates a room on socket 0 and Bo joins it on socket 1. Every random draw is
  1/2, so the only code \<^verbatim>\<open>genCode\<close> returns is VALVE-SSSS.
\<close>

definition envA :: env where
  "envA = \<lparr>now = 1700000000000, random = (\<lambda>k. 1 / 2), randomSuffix = ''k3x9q'', writeOk = True\<rparr>"

text \<open>49 hours later.\<close>

definition envB :: env where
  "envB = \<lparr>now = 1700176400000, random = (\<lambda>k. 1 / 2), randomSuffix = ''p07mz'', writeOk = True\<rparr>"

definition createMsg :: json where
  "createMsg = JObj [(''type'', JStr ''create_room''), (''masterName'', JStr ''Ana''),
                     (''sessionName'', JStr ''Campaign 1'')]"

definition createNoSessionMsg :: json where
  "createNoSessionMsg = JObj [(''type'', JStr ''create_room''), (''masterName'', JStr ''Ana'')]"

definition joinMsg :: json where
  "joinMsg = JObj [(''type'', JStr ''join_room''), (''playerName'', JStr ''Bo''),
                   (''roomCode'', JStr '' valve-ssss '')]"

definition joinCanonicalMsg :: json where
  "joinCanonicalMsg = JObj [(''type'', JStr ''join_room''), (''playerName'', JStr ''Bo''),
                            (''roomCode'', JStr ''VALVE-SSSS'')]"



definition reconnectPlayerMsg :: json where
  "reconnectPlayerMsg = JObj [(''type'', JStr ''reconnect''), (''role'', JStr ''player''),
                              (''name'', JStr ''Bo''), (''roomCode'', JStr ''valve-ssss'')]"

definition reconnectMasterMsg :: json where
  "reconnectMasterMsg = JObj [(''type'', JStr ''reconnect''), (''role'', JStr ''master''),
                              (''name'', JStr ''Ana''), (''roomCode'', JStr ''VALVE-SSSS'')]"

definition reconnectSpacedMsg :: json where
  "reconnectSpacedMsg = JObj [(''type'', JStr ''reconnect''), (''role'', JStr ''player''),
                              (''name'', JStr ''Bo''), (''roomCode'', JStr '' valve-ssss '')]"

text \<open>
  The code between a no-break space and a tab, and the code spelt with a sharp s, whose
  capital is SS.
\<close>

definition joinPaddedMsg :: json where
  "joinPaddedMsg = JObj [(''type'', JStr ''join_room''), (''playerName'', JStr ''Bo''),
                         (''roomCode'', JStr ([CHR 0xA0] @ '' valve-ssss '' @ [CHR 0x09]))]"

definition reconnectSharpMsg :: json where
  "reconnectSharpMsg = JObj [(''type'', JStr ''reconnect''), (''role'', JStr ''player''),
                             (''name'', JStr ''Bo''), (''roomCode'', JStr (''valve-'' @ [CHR 0xDF] @ ''ss''))]"

definition sheet :: json where
  "sheet = JObj [(''hp'', JNum 10)]"

definition fichaMsg :: json where
  "fichaMsg = JObj [(''type'', JStr ''ficha_data''), (''fichaData'', sheet)]"

definition requestMsg :: json where
  "requestMsg = JObj [(''type'', JStr ''request_ficha''), (''playerId'', JStr ''loyw3v28k3x9q'')]"

text \<open>A request whose id is an object with a property \<^verbatim>\<open>toString\<close> of its own.\<close>

definition requestObjectMsg :: json where
  "requestObjectMsg =
     JObj [(''type'', JStr ''request_ficha''), (''playerId'', JObj [(''toString'', JNum 1)])]"

definition boId :: string where
  "boId = ''loyw3v28k3x9q''"

definition created :: state where
  "created = onMessage envA 0 (Some createMsg) (onConnection 0 (start []))"

definition joined :: state where
  "joined = onMessage envA 1 (Some joinMsg) (onConnection 1 created)"


text \<open>A second player of the same name joins within the same millisecond, with the same draw.\<close>

definition joinedTwice :: state where
  "joinedTwice = onMessage envA 2 (Some joinMsg) (onConnection 2 joined)"



text \<open>The sweeper runs 49 hours after the room was created.\<close>

definition swept :: state where
  "swept = sweep envB joined"

text \<open>Bo sends a sheet; the process restarts after the next save, and Ana reconnects on a new socket.\<close>

definition updated :: state where
  "updated = onMessage envA 1 (Some fichaMsg) joined"

text \<open>Or Bo's socket closes after he sent the sheet.\<close>

definition left :: state where
  "left = onClose 1 updated"

definition restarted :: state where
  "restarted = onConnection 0 (restart (saveTimer envA updated))"

definition masterBack :: state where
  "masterBack = onMessage envB 0 (Some reconnectMasterMsg) restarted"

text \<open>A new player joins after that.\<close>

definition joinedAfter :: state where
  "joinedAfter = onMessage envB 1 (Some joinMsg) (onConnection 1 masterBack)"

text \<open>Shorthands for the values of the session.\<close>

definition openConn :: "json \<Rightarrow> string option \<Rightarrow> json \<Rightarrow> string option \<Rightarrow> conn" where
  "openConn r c n p =
     \<lparr>readyState = OPEN, alive = True, role = r, roomCode = c, conn_name = n, playerId = p\<rparr>"

definition roomA :: "(string \<times> dbPlayer) list \<Rightarrow> dbRoom" where
  "roomA ps =
     \<lparr>masterName = JStr ''Ana'', sessionName = JStr ''Campaign 1'', createdAt = 1700000000000,
      players = Some ps\<rparr>"

section \<open>Properties of the handlers\<close>

declare genCode_loop.simps [simp del] pickCode.simps [simp del] toString36.simps [simp del]
  toString10.simps [simp del] bits.simps [simp del] toUpperCase.simps [simp del]

subsection \<open>Frame lemmas\<close>

lemma send_fields [simp]:
  "db_rooms (send c d s) = db_rooms s" "disk (send c d s) = disk s"
  "liveRooms (send c d s) = liveRooms s" "conns (send c d s) = conns s"
  by (simp_all add: send_def)

lemma isOpen_send [simp]: "isOpen (send c d s) c' = isOpen s c'"
  by (simp add: isOpen_def)

lemma outbox_send: "outbox (send c d s) = outbox s @ (if isOpen s c then [(c, d)] else [])"
  by (simp add: send_def)

lemma sendUnlessExcluded_fields [simp]:
  "db_rooms (sendUnlessExcluded t d x s) = db_rooms s" "disk (sendUnlessExcluded t d x s) = disk s"
  "liveRooms (sendUnlessExcluded t d x s) = liveRooms s" "conns (sendUnlessExcluded t d x s) = conns s"
  by (simp_all add: sendUnlessExcluded_def split: option.splits)

lemma fold_sendUnlessExcluded_fields [simp]:
  "db_rooms (fold (\<lambda>(pid, p). sendUnlessExcluded (ws p) d x) ps s) = db_rooms s"
  "disk (fold (\<lambda>(pid, p). sendUnlessExcluded (ws p) d x) ps s) = disk s"
  "liveRooms (fold (\<lambda>(pid, p). sendUnlessExcluded (ws p) d x) ps s) = liveRooms s"
  "conns (fold (\<lambda>(pid, p). sendUnlessExcluded (ws p) d x) ps s) = conns s"
  by (induction ps arbitrary: s; simp add: case_prod_beta)+

lemma broadcastRoom_fields [simp]:
  "db_rooms (broadcastRoom code d x s) = db_rooms s" "disk (broadcastRoom code d x s) = disk s"
  "liveRooms (broadcastRoom code d x s) = liveRooms s" "conns (broadcastRoom code d x s) = conns s"
  by (simp_all add: broadcastRoom_def split: option.splits)

lemma isOpen_broadcastRoom [simp]: "isOpen (broadcastRoom code d x s) c = isOpen s c"
  by (simp add: isOpen_def)

lemma saveDB_fields [simp]:
  "db_rooms (saveDB e s) = db_rooms s" "liveRooms (saveDB e s) = liveRooms s"
  "conns (saveDB e s) = conns s" "outbox (saveDB e s) = outbox s"
  by (simp_all add: saveDB_def)

lemma isOpen_saveDB [simp]: "isOpen (saveDB e s) c = isOpen s c"
  by (simp add: isOpen_def)

lemma type_not_null: "fld msg ''type'' = JStr t \<Longrightarrow> msg \<noteq> JNull \<and> msg \<noteq> JUndefined"
  by (cases msg) auto

lemma handleMsg_create: "fld msg ''type'' = JStr ''create_room'' \<Longrightarrow> handleMsg e sock msg s = Inr (create_room e sock msg s)"
  using type_not_null[of msg] by (simp add: handleMsg_def)

lemma handleMsg_join: "fld msg ''type'' = JStr ''join_room'' \<Longrightarrow> handleMsg e sock msg s = join_room e sock msg s"
  using type_not_null[of msg] by (simp add: handleMsg_def)

lemma handleMsg_reconnect: "fld msg ''type'' = JStr ''reconnect'' \<Longrightarrow> handleMsg e sock msg s = reconnect e sock msg s"
  using type_not_null[of msg] by (simp add: handleMsg_def)


lemma handleMsg_request_ficha: "fld msg ''type'' = JStr ''request_ficha'' \<Longrightarrow> handleMsg e sock msg s = request_ficha sock msg s"
  using type_not_null[of msg] by (simp add: handleMsg_def)

lemma join_room_no_entry:
  assumes "fld msg ''roomCode'' = JStr rc"
    and "Option.bind (toUpperCase (trim rc)) (map_of (db_rooms s)) = None"
  shows "join_room e sock msg s = Inr (if truthy (fld msg ''playerName'') \<and> rc \<noteq> [] then send sock (RoomError room_not_found) s else s)"
proof (cases "toUpperCase (trim rc)")
  case None
  then show ?thesis using assms(1) by (simp add: join_room_def)
next
  case (Some code)
  then have "map_of (db_rooms s) code = None" using assms(2) by simp
  then show ?thesis using assms(1) Some by (simp add: join_room_def)
qed

subsection \<open>The enumeration of an object\<close>

lemma set_ownEntries [simp]: "set (ownEntries kvs) = set kvs"
  by (auto simp: ownEntries_def)

lemma ownEntries_Nil [simp]: "ownEntries [] = []"
  by (simp add: ownEntries_def)

lemma map_of_filter_key: "map_of xs k = map_of (filter (\<lambda>p. fst p = k) xs) k"
  by (induction xs) auto

text \<open>The sort is stable, so the first property under a key stays the first under it.\<close>

lemma filter_key_ownEntries:
  "filter (\<lambda>p. fst p = k) (ownEntries kvs) = filter (\<lambda>p. fst p = k) kvs"
proof -
  let ?g = "\<lambda>(k, v :: 'a). decimalValue k"
  let ?I = "filter (\<lambda>(k, v). isArrayIndex k) kvs"
  have "filter (\<lambda>p. fst p = k) (sort_key ?g ?I)
          = filter (\<lambda>p. fst p = k) (filter (\<lambda>p. ?g p = decimalValue k) (sort_key ?g ?I))"
    by (auto intro!: filter_cong)
  also have "\<dots> = filter (\<lambda>p. fst p = k) (filter (\<lambda>p. ?g p = decimalValue k) ?I)"
    by (simp only: sort_key_stable)
  also have "\<dots> = filter (\<lambda>p. fst p = k) ?I"
    by (auto intro!: filter_cong)
  finally have a: "filter (\<lambda>p. fst p = k) (sort_key ?g ?I) = filter (\<lambda>p. fst p = k) ?I" .
  show ?thesis
  proof (cases "isArrayIndex k")
    case True
    then have "filter (\<lambda>p. fst p = k) (filter (\<lambda>(k, v). \<not> isArrayIndex k) kvs) = []"
      by (auto simp: filter_empty_conv)
    moreover have "filter (\<lambda>p. fst p = k) ?I = filter (\<lambda>p. fst p = k) kvs"
      using True by (auto intro!: filter_cong)
    ultimately show ?thesis by (simp add: ownEntries_def a)
  next
    case False
    then have "filter (\<lambda>p. fst p = k) ?I = []"
      by (auto simp: filter_empty_conv)
    moreover have "filter (\<lambda>p. fst p = k) (filter (\<lambda>(k, v). \<not> isArrayIndex k) kvs) = filter (\<lambda>p. fst p = k) kvs"
      using False by (auto intro!: filter_cong)
    ultimately show ?thesis by (simp add: ownEntries_def a)
  qed
qed

lemma map_of_ownEntries [simp]: "map_of (ownEntries kvs) = map_of kvs"
proof
  fix k
  show "map_of (ownEntries kvs) k = map_of kvs k"
    using map_of_filter_key[of "ownEntries kvs" k] map_of_filter_key[of kvs k]
    by (simp only: filter_key_ownEntries)
qed

text \<open>Enumerating what was enumerated changes nothing: a store read back from its file.\<close>

lemma ownEntries_idem: "ownEntries (ownEntries kvs) = ownEntries kvs"
proof -
  let ?g = "\<lambda>(k, v :: 'a). decimalValue k"
  let ?I = "filter (\<lambda>(k, v). isArrayIndex k) kvs"
  let ?N = "filter (\<lambda>(k, v). \<not> isArrayIndex k) kvs"
  have 1: "filter (\<lambda>(k, v). isArrayIndex k) (sort_key ?g ?I) = sort_key ?g ?I"
    by (auto simp: filter_id_conv)
  have 2: "filter (\<lambda>(k, v). isArrayIndex k) ?N = []"
    by (auto simp: filter_empty_conv)
  have 3: "filter (\<lambda>(k, v). \<not> isArrayIndex k) (sort_key ?g ?I) = []"
    by (auto simp: filter_empty_conv)
  have 4: "filter (\<lambda>(k, v). \<not> isArrayIndex k) ?N = ?N"
    by (auto simp: filter_id_conv)
  have 5: "sort_key ?g (sort_key ?g ?I) = sort_key ?g ?I"
    by (rule sort_key_id_if_sorted) (rule sorted_sort_key)
  show ?thesis
    by (simp only: ownEntries_def filter_append 1 2 3 4 append_Nil2 append_Nil 5)
qed

lemma ownEntries_plain:
  "list_all (\<lambda>(k, v). \<not> isArrayIndex k) kvs \<Longrightarrow> ownEntries kvs = kvs"
  by (induction kvs) (auto simp: ownEntries_def list_all_iff filter_empty_conv)

lemma isArrayIndex_examples:
  "isArrayIndex ''0''" "isArrayIndex ''4294967294''" "\<not> isArrayIndex ''4294967295''"
  "\<not> isArrayIndex ''01''" "\<not> isArrayIndex []"
  by (simp_all add: isArrayIndex_def decimalValue_def)

lemma ownEntries_example:
  "ownEntries [(''b'', 1::nat), (''10'', 2), (''a'', 3), (''9'', 4), (''07'', 5)]
     = [(''9'', 4), (''10'', 2), (''b'', 1), (''a'', 3), (''07'', 5)]"
  by (simp add: ownEntries_def isArrayIndex_def decimalValue_def)

text \<open>The ids and the code of the example session are no array indices.\<close>

lemma isArrayIndex_session [simp]:
  "\<not> isArrayIndex ''loyw3v28k3x9q''" "\<not> isArrayIndex ''lp1t4q68p07mz''"
  "\<not> isArrayIndex ''VALVE-SSSS''"
  by (simp_all add: isArrayIndex_def)

subsection \<open>The example session, evaluated\<close>

lemma genCode_half [simp]: "genCode (\<lambda>k. 1 / 2) k = ''VALVE-SSSS''"
  unfolding genCode_def
  apply (subst genCode_loop.simps, simp)
  apply (subst genCode_loop.simps, simp)
  apply (subst genCode_loop.simps, simp)
  apply (subst genCode_loop.simps, simp)
  apply (subst genCode_loop.simps, simp)
  apply (simp add: charAt_def chars_def)
  done

lemma envA_fields [simp]:
  "now envA = 1700000000000" "random envA = (\<lambda>k. 1 / 2)" "randomSuffix envA = ''k3x9q''" "writeOk envA"
  by (simp_all add: envA_def)

lemma envB_fields [simp]:
  "now envB = 1700176400000" "random envB = (\<lambda>k. 1 / 2)" "randomSuffix envB = ''p07mz''" "writeOk envB"
  by (simp_all add: envB_def)

lemma genId_envA [simp]: "genId envA = ''loyw3v28k3x9q''"
  by (simp add: genId_def toString36.simps digitChars_def)

lemma created_eq:
  "created = \<lparr>db_rooms = [(''VALVE-SSSS'', roomA [])], disk = [(''VALVE-SSSS'', roomA [])],
     liveRooms = [''VALVE-SSSS'' \<mapsto> \<lparr>masterWs = Some 0, live_players = []\<rparr>],
     conns = (\<lambda>c. closedConn)(0 := openConn (JStr ''master'') (Some ''VALVE-SSSS'') (JStr ''Ana'') None),
     outbox = [(0, RoomCreated ''VALVE-SSSS'' (JStr ''Campaign 1'') (JStr ''Ana''))]\<rparr>"
  by (simp add: created_def onMessage_def handleMsg_def createMsg_def create_room_def Let_def
      onConnection_def start_def pickCode.simps saveDB_def send_def isOpen_def roomA_def openConn_def)

lemma normalize_ssss: "toUpperCase (trim '' valve-ssss '') = Some ''VALVE-SSSS''"
  by (simp add: toUpperCase.simps trim_def isWhiteSpace_def toUpperCaseChar_def char_of_eq_iff)

lemma joined_eq:
  "joined = \<lparr>db_rooms = [(''VALVE-SSSS'', roomA [(''loyw3v28k3x9q'', \<lparr>name = JStr ''Bo'', fichaData = JObj []\<rparr>)])],
     disk = [(''VALVE-SSSS'', roomA [(''loyw3v28k3x9q'', \<lparr>name = JStr ''Bo'', fichaData = JObj []\<rparr>)])],
     liveRooms = [''VALVE-SSSS'' \<mapsto> \<lparr>masterWs = Some 0, live_players = [(''loyw3v28k3x9q'', \<lparr>ws = Some 1, live_name = JStr ''Bo'', live_fichaData = JObj []\<rparr>)]\<rparr>],
     conns = (\<lambda>c. closedConn)(0 := openConn (JStr ''master'') (Some ''VALVE-SSSS'') (JStr ''Ana'') None,
                1 := openConn (JStr ''player'') (Some ''VALVE-SSSS'') (JStr ''Bo'') (Some ''loyw3v28k3x9q'')),
     outbox = [(0, RoomCreated ''VALVE-SSSS'' (JStr ''Campaign 1'') (JStr ''Ana'')),
               (1, RoomJoined ''VALVE-SSSS'' (JStr ''Campaign 1'') ''loyw3v28k3x9q''),
               (0, PlayersUpdate [(''loyw3v28k3x9q'', \<lparr>snap_id = ''loyw3v28k3x9q'', snap_name = JStr ''Bo'', online = True\<rparr>)]),
               (1, PlayersUpdate [(''loyw3v28k3x9q'', \<lparr>snap_id = ''loyw3v28k3x9q'', snap_name = JStr ''Bo'', online = True\<rparr>)])]\<rparr>"
  by (simp add: joined_def created_eq onMessage_def handleMsg_def joinMsg_def join_room_def join_known_def Let_def normalize_ssss
      onConnection_def saveDB_def send_def isOpen_def roomA_def openConn_def setLivePlayer_def broadcastRoom_def
      sendUnlessExcluded_def playersSnapshot_def ownEntries_def playersOrEmpty_def)


lemma upper_ssss:
  "toUpperCase ''valve-ssss'' = Some ''VALVE-SSSS''"
  "toUpperCase '' valve-ssss '' = Some '' VALVE-SSSS ''"
  "toUpperCase (trim ''VALVE-SSSS'') = Some ''VALVE-SSSS''"
  by (simp_all add: toUpperCase.simps trim_def isWhiteSpace_def toUpperCaseChar_def char_of_eq_iff)


lemma upper_VALVE: "toUpperCase ''VALVE-SSSS'' = Some ''VALVE-SSSS''"
  by (simp add: toUpperCase.simps toUpperCaseChar_def char_of_eq_iff)

lemma swept_eq:
  "swept = \<lparr>db_rooms = [], disk = [],
     liveRooms = Map.empty,
     conns = (\<lambda>c. closedConn)(0 := openConn (JStr ''master'') (Some ''VALVE-SSSS'') (JStr ''Ana'') None,
                1 := openConn (JStr ''player'') (Some ''VALVE-SSSS'') (JStr ''Bo'') (Some ''loyw3v28k3x9q'')),
     outbox = outbox joined\<rparr>"
  by (simp add: swept_def sweep_def ttl_def sweepEntry_def joined_eq roomA_def Let_def saveDB_def ownEntries_def)

lemma updated_eq:
  "updated = \<lparr>db_rooms = [(''VALVE-SSSS'', roomA [(''loyw3v28k3x9q'', \<lparr>name = JStr ''Bo'', fichaData = sheet\<rparr>)])],
     disk = [(''VALVE-SSSS'', roomA [(''loyw3v28k3x9q'', \<lparr>name = JStr ''Bo'', fichaData = JObj []\<rparr>)])],
     liveRooms = [''VALVE-SSSS'' \<mapsto> \<lparr>masterWs = Some 0, live_players = [(''loyw3v28k3x9q'', \<lparr>ws = Some 1, live_name = JStr ''Bo'', live_fichaData = sheet\<rparr>)]\<rparr>],
     conns = (\<lambda>c. closedConn)(0 := openConn (JStr ''master'') (Some ''VALVE-SSSS'') (JStr ''Ana'') None,
                1 := openConn (JStr ''player'') (Some ''VALVE-SSSS'') (JStr ''Bo'') (Some ''loyw3v28k3x9q'')),
     outbox = outbox joined @ [(0, FichaUpdate (JStr ''loyw3v28k3x9q'') sheet)]\<rparr>"
  by (simp add: updated_def joined_eq onMessage_def handleMsg_def fichaMsg_def ficha_data_def boundCode_def Let_def
      openConn_def idKey_def idJson_def isOpen_def send_def roomA_def)

lemma restarted_eq:
  "restarted = \<lparr>db_rooms = [(''VALVE-SSSS'', roomA [(''loyw3v28k3x9q'', \<lparr>name = JStr ''Bo'', fichaData = sheet\<rparr>)])],
     disk = [(''VALVE-SSSS'', roomA [(''loyw3v28k3x9q'', \<lparr>name = JStr ''Bo'', fichaData = sheet\<rparr>)])],
     liveRooms = Map.empty,
     conns = (\<lambda>c. closedConn)(0 := openConn JNull None JNull None),
     outbox = []\<rparr>"
  by (simp add: restarted_def updated_eq restart_def start_def saveTimer_def saveDB_def onConnection_def openConn_def)

lemma masterBack_eq:
  "masterBack = \<lparr>db_rooms = [(''VALVE-SSSS'', roomA [(''loyw3v28k3x9q'', \<lparr>name = JStr ''Bo'', fichaData = sheet\<rparr>)])],
     disk = [(''VALVE-SSSS'', roomA [(''loyw3v28k3x9q'', \<lparr>name = JStr ''Bo'', fichaData = sheet\<rparr>)])],
     liveRooms = [''VALVE-SSSS'' \<mapsto> \<lparr>masterWs = Some 0, live_players = []\<rparr>],
     conns = (\<lambda>c. closedConn)(0 := openConn (JStr ''master'') (Some ''VALVE-SSSS'') (JStr ''Ana'') None),
     outbox = [(0, RoomCreated ''VALVE-SSSS'' (JStr ''Campaign 1'') (JStr ''Ana'')), (0, PlayersUpdate [])]\<rparr>"
  by (simp add: masterBack_def restarted_eq onMessage_def handleMsg_def reconnectMasterMsg_def reconnect_def
      reconnect_known_def Let_def upper_VALVE
      send_def isOpen_def roomA_def openConn_def playersSnapshot_def ownEntries_def)

subsection \<open>Room codes\<close>

lemma genCode_unfold:
  "genCode rnd k = ''VALVE-'' @ charAt chars \<lfloor>rnd k * of_nat (length chars)\<rfloor>
      @ charAt chars \<lfloor>rnd (Suc k) * of_nat (length chars)\<rfloor>
      @ charAt chars \<lfloor>rnd (Suc (Suc k)) * of_nat (length chars)\<rfloor>
      @ charAt chars \<lfloor>rnd (Suc (Suc (Suc k))) * of_nat (length chars)\<rfloor>"
  unfolding genCode_def
  apply (subst genCode_loop.simps, simp)
  apply (subst genCode_loop.simps, simp)
  apply (subst genCode_loop.simps, simp)
  apply (subst genCode_loop.simps, simp)
  apply (subst genCode_loop.simps, simp)
  done

lemma length_chars: "length chars = 32" by (simp add: chars_def)

lemma charAt_draw:
  fixes r :: rat
  assumes "0 \<le> r" "r < 1"
  shows "\<exists>c. charAt chars \<lfloor>r * of_nat (length chars)\<rfloor> = [c] \<and> c \<in> set chars"
proof -
  have a: "0 \<le> \<lfloor>r * 32\<rfloor>" using assms by simp
  have "r * 32 < 32" using assms by simp
  then have b: "\<lfloor>r * 32\<rfloor> < 32" by (simp add: floor_less_iff)
  have "nat \<lfloor>r * 32\<rfloor> < 32" using a b by linarith
  then have "nat \<lfloor>r * 32\<rfloor> < length chars" by (simp only: length_chars)
  then have "chars ! nat \<lfloor>r * 32\<rfloor> \<in> set chars" by (rule nth_mem)
  moreover have "charAt chars \<lfloor>r * of_nat (length chars)\<rfloor> = [chars ! nat \<lfloor>r * 32\<rfloor>]"
    unfolding charAt_def length_chars using a b by simp
  ultimately show ?thesis by blast
qed

lemma chars_unambiguous: "set chars \<inter> {CHR ''0'', CHR ''O'', CHR ''1'', CHR ''I''} = {}"
  by (simp add: chars_def)

lemma genCode_format:
  assumes "\<forall>k. 0 \<le> rnd k \<and> rnd k < 1"
  shows "\<exists>cs. genCode rnd k = ''VALVE-'' @ cs \<and> length cs = 4 \<and> set cs \<subseteq> set chars"
proof -
  obtain c0 where c0: "charAt chars \<lfloor>rnd k * of_nat (length chars)\<rfloor> = [c0]" "c0 \<in> set chars"
    using charAt_draw assms by blast
  obtain c1 where c1: "charAt chars \<lfloor>rnd (Suc k) * of_nat (length chars)\<rfloor> = [c1]" "c1 \<in> set chars"
    using charAt_draw assms by blast
  obtain c2 where c2: "charAt chars \<lfloor>rnd (Suc (Suc k)) * of_nat (length chars)\<rfloor> = [c2]" "c2 \<in> set chars"
    using charAt_draw assms by blast
  obtain c3 where c3: "charAt chars \<lfloor>rnd (Suc (Suc (Suc k))) * of_nat (length chars)\<rfloor> = [c3]" "c3 \<in> set chars"
    using charAt_draw assms by blast
  have "genCode rnd k = ''VALVE-'' @ [c0, c1, c2, c3]"
    by (simp only: genCode_unfold c0 c1 c2 c3) simp
  then show ?thesis using c0 c1 c2 c3 by (intro exI[of _ "[c0, c1, c2, c3]"]) simp
qed

lemma pickCode_spec:
  "attempts < 20 \<Longrightarrow> pickCode rooms rnd attempts = (code, n) \<Longrightarrow>
     attempts < n \<and> n \<le> 20 \<and> code = genCode rnd (4 * (n - 1)) \<and>
     (\<forall>j. attempts \<le> j \<and> j < n - 1 \<longrightarrow> map_of rooms (genCode rnd (4 * j)) \<noteq> None) \<and>
     (n < 20 \<longrightarrow> map_of rooms code = None)"
proof (induction rooms rnd attempts rule: pickCode.induct)
  case (1 rooms rnd attempts)
  show ?case
  proof (cases "map_of rooms (genCode rnd (4 * attempts)) \<noteq> None \<and> Suc attempts < 20")
    case True
    then have eq: "pickCode rooms rnd (Suc attempts) = (code, n)"
      using "1.prems"(2) by (subst (asm) pickCode.simps) simp
    have lt: "Suc attempts < 20" using True by simp
    note ih = "1.IH"[OF True lt eq]
    have "\<forall>j. attempts \<le> j \<and> j < n - 1 \<longrightarrow> map_of rooms (genCode rnd (4 * j)) \<noteq> None"
    proof (intro allI impI)
      fix j assume j: "attempts \<le> j \<and> j < n - 1"
      show "map_of rooms (genCode rnd (4 * j)) \<noteq> None"
      proof (cases "j = attempts")
        case True then show ?thesis using \<open>map_of rooms (genCode rnd (4 * attempts)) \<noteq> None \<and> Suc attempts < 20\<close> by blast
      next
        case False
        then have "Suc attempts \<le> j \<and> j < n - 1" using j by linarith
        then show ?thesis using ih by blast
      qed
    qed
    moreover have "attempts < n" using ih by linarith
    ultimately show ?thesis using ih by blast
  next
    case False
    then have "(code, n) = (genCode rnd (4 * attempts), Suc attempts)"
      using "1.prems"(2) by (subst (asm) pickCode.simps) (simp split: if_splits)
    then show ?thesis using False "1.prems"(1) by auto
  qed
qed

lemma create_room_stores:
  assumes "truthy (fld msg ''masterName'')" "truthy (fld msg ''sessionName'')"
  shows "map_of (db_rooms (create_room e sock msg s)) (fst (pickCode (db_rooms s) (random e) 0)) =
           Some \<lparr>masterName = fld msg ''masterName'', sessionName = fld msg ''sessionName'',
                 createdAt = int (now e), players = Some []\<rparr>"
    and "liveRooms (create_room e sock msg s) (fst (pickCode (db_rooms s) (random e) 0)) =
           Some \<lparr>masterWs = Some sock, live_players = []\<rparr>"
  using assms by (simp_all add: create_room_def Let_def update_conv')

lemma pick_crowded: "pickCode [(''VALVE-SSSS'', r)] (\<lambda>k. 1 / 2) 0 = (''VALVE-SSSS'', 20)"
  by (simp add: pickCode.simps)

subsection \<open>Normalisation\<close>

lemma toUpperCaseChar_Nil: "toUpperCaseChar c \<noteq> Some []"
  by (simp add: toUpperCaseChar_def)

lemma toUpperCase_Nil [simp]: "toUpperCase rc = Some [] \<longleftrightarrow> rc = []"
  using toUpperCaseChar_Nil
  by (cases rc) (auto simp: toUpperCase.simps split: option.splits)

lemma toUpperCase_append:
  "toUpperCase (xs @ ys) =
     (case toUpperCase xs of
        None \<Rightarrow> None
      | Some us \<Rightarrow> (case toUpperCase ys of None \<Rightarrow> None | Some vs \<Rightarrow> Some (us @ vs)))"
  by (induction xs) (auto simp: toUpperCase.simps split: option.splits)

text \<open>A capital is its own capital.\<close>

lemma toUpperCaseChar_idem:
  assumes "toUpperCaseChar c = Some u"
  shows "toUpperCase u = Some u"
proof -
  consider "u = [c]" "toUpperCaseChar c = Some [c]"
    | "u = ''SS''"
    | "u = [char_of ((of_char c :: nat) - 32)]" "97 \<le> (of_char c :: nat)" "(of_char c :: nat) \<le> 122"
    | "u = [char_of ((of_char c :: nat) - 32)]" "224 \<le> (of_char c :: nat)" "(of_char c :: nat) \<le> 254"
        "(of_char c :: nat) \<noteq> 247"
    using assms by (auto simp: toUpperCaseChar_def split: if_splits)
  then show ?thesis
  proof cases
    case 1
    then show ?thesis by (simp add: toUpperCase.simps)
  next
    case 2
    then show ?thesis by (simp add: toUpperCase.simps toUpperCaseChar_def)
  next
    case 3
    then have "(of_char (char_of ((of_char c :: nat) - 32)) :: nat) = of_char c - 32"
      by (simp add: take_bit_eq_mod)
    then have "toUpperCaseChar (char_of ((of_char c :: nat) - 32)) = Some [char_of ((of_char c :: nat) - 32)]"
      using 3 by (auto simp: toUpperCaseChar_def)
    then show ?thesis using 3(1) by (simp add: toUpperCase.simps)
  next
    case 4
    then have "(of_char (char_of ((of_char c :: nat) - 32)) :: nat) = of_char c - 32"
      by (simp add: take_bit_eq_mod)
    then have "toUpperCaseChar (char_of ((of_char c :: nat) - 32)) = Some [char_of ((of_char c :: nat) - 32)]"
      using 4 by (auto simp: toUpperCaseChar_def)
    then show ?thesis using 4(1) by (simp add: toUpperCase.simps)
  qed
qed

lemma toUpperCase_idem: "toUpperCase s = Some u \<Longrightarrow> toUpperCase u = Some u"
proof (induction s arbitrary: u)
  case Nil
  then show ?case by (simp add: toUpperCase.simps)
next
  case (Cons c cs)
  then obtain v vs where v: "toUpperCaseChar c = Some v" "toUpperCase cs = Some vs" "u = v @ vs"
    by (auto simp: toUpperCase.simps split: option.splits)
  have "toUpperCase v = Some v" using v(1) by (rule toUpperCaseChar_idem)
  moreover have "toUpperCase vs = Some vs" using v(2) by (rule Cons.IH)
  ultimately show ?case by (simp add: v(3) toUpperCase_append)
qed

lemma dropWhile_fix: "xs = [] \<or> \<not> P (hd xs) \<Longrightarrow> dropWhile P xs = xs"
  by (cases xs) auto

lemma trim_idem: "trim (trim s) = trim s"
proof -
  let ?t = "dropWhile isWhiteSpace s"
  let ?u = "dropWhile isWhiteSpace (rev ?t)"
  have u: "?u = [] \<or> \<not> isWhiteSpace (hd ?u)" using hd_dropWhile[of isWhiteSpace "rev ?t"] by blast
  have t: "?t = [] \<or> \<not> isWhiteSpace (hd ?t)" using hd_dropWhile[of isWhiteSpace s] by blast
  have "rev ?u = [] \<or> \<not> isWhiteSpace (hd (rev ?u))"
  proof (cases "?u = []")
    case True then show ?thesis by simp
  next
    case False
    then have "last ?u = last (rev ?t)"
      by (metis append_self_conv2 last_appendR takeWhile_dropWhile_id)
    moreover have "rev ?t \<noteq> []"
    proof
      assume "rev ?t = []"
      then have "?u = []" by (simp only: dropWhile.simps)
      then show False using False by blast
    qed
    ultimately have "hd (rev ?u) = hd ?t" using False by (simp add: hd_rev last_rev)
    then show ?thesis using t \<open>rev ?t \<noteq> []\<close> by auto
  qed
  then have 1: "dropWhile isWhiteSpace (rev ?u) = rev ?u" by (rule dropWhile_fix)
  have 2: "dropWhile isWhiteSpace ?u = ?u" using u by (rule dropWhile_fix)
  show ?thesis by (simp add: trim_def 1 2)
qed

lemma trim_surrounding:
  assumes "\<forall>c\<in>set l. isWhiteSpace c" "\<forall>c\<in>set r. isWhiteSpace c"
  shows "trim (l @ s @ r) = trim s"
proof -
  have a: "dropWhile isWhiteSpace (l @ s @ r) = dropWhile isWhiteSpace (s @ r)"
    using assms(1) by (intro dropWhile_append2) blast
  have b: "dropWhile isWhiteSpace (rev (xs @ r)) = dropWhile isWhiteSpace (rev xs)" for xs
  proof -
    have "dropWhile isWhiteSpace (rev r @ rev xs) = dropWhile isWhiteSpace (rev xs)"
      using assms(2) by (intro dropWhile_append2) simp
    then show ?thesis by simp
  qed
  show ?thesis
  proof (cases "\<forall>c\<in>set s. isWhiteSpace c")
    case True
    then have "dropWhile isWhiteSpace (s @ r) = dropWhile isWhiteSpace r" by (intro dropWhile_append2) blast
    moreover have "dropWhile isWhiteSpace r = []" using assms(2) by simp
    moreover have "dropWhile isWhiteSpace s = []" using True by simp
    ultimately show ?thesis by (simp only: trim_def a)
  next
    case False
    then have "dropWhile isWhiteSpace (s @ r) = dropWhile isWhiteSpace s @ r"
      by (metis dropWhile_append1 )
    then show ?thesis by (simp add: trim_def a b del: rev_append)
  qed
qed

subsection \<open>Messages sent, and the effect of \<^verbatim>\<open>join_room\<close>\<close>

lemma outbox_sendUnlessExcluded:
  "\<exists>rest. outbox (sendUnlessExcluded t d x s) = outbox s @ rest \<and> snd ` set rest \<subseteq> {d}"
  by (auto simp: sendUnlessExcluded_def split: option.splits)

lemma outbox_fold_sendUnlessExcluded:
  "\<exists>rest. outbox (fold (\<lambda>(pid, p). sendUnlessExcluded (ws p) d x) ps s) = outbox s @ rest \<and> snd ` set rest \<subseteq> {d}"
proof (induction ps arbitrary: s)
  case Nil
  then show ?case by simp
next
  case (Cons a ps)
  obtain r1 where r1: "outbox (sendUnlessExcluded (ws (snd a)) d x s) = outbox s @ r1" "snd ` set r1 \<subseteq> {d}"
    using outbox_sendUnlessExcluded by blast
  obtain r2 where r2: "outbox (fold (\<lambda>(pid, p). sendUnlessExcluded (ws p) d x) ps (sendUnlessExcluded (ws (snd a)) d x s))
       = outbox (sendUnlessExcluded (ws (snd a)) d x s) @ r2" "snd ` set r2 \<subseteq> {d}"
    using Cons.IH by blast
  have "outbox (fold (\<lambda>(pid, p). sendUnlessExcluded (ws p) d x) (a # ps) s) = outbox s @ (r1 @ r2)"
    using r1 r2 by (simp add: case_prod_beta)
  moreover have "snd ` set (r1 @ r2) \<subseteq> {d}" using r1 r2 by auto
  ultimately show ?case by blast
qed

lemma outbox_broadcastRoom:
  "\<exists>rest. outbox (broadcastRoom code d x s) = outbox s @ rest \<and> snd ` set rest \<subseteq> {d}"
proof (cases "liveRooms s code")
  case None
  then show ?thesis by (simp add: broadcastRoom_def)
next
  case (Some room)
  obtain r1 where r1: "outbox (sendUnlessExcluded (masterWs room) d x s) = outbox s @ r1" "snd ` set r1 \<subseteq> {d}"
    using outbox_sendUnlessExcluded by blast
  obtain r2 where r2: "outbox (fold (\<lambda>(pid, p). sendUnlessExcluded (ws p) d x) (ownEntries (live_players room)) (sendUnlessExcluded (masterWs room) d x s))
       = outbox (sendUnlessExcluded (masterWs room) d x s) @ r2" "snd ` set r2 \<subseteq> {d}"
    using outbox_fold_sendUnlessExcluded by blast
  have "outbox (broadcastRoom code d x s) = outbox s @ (r1 @ r2)"
    using r1 r2 Some by (simp add: broadcastRoom_def)
  moreover have "snd ` set (r1 @ r2) \<subseteq> {d}" using r1 r2 by auto
  ultimately show ?thesis by blast
qed

lemma setLivePlayer_fields [simp]:
  "db_rooms (setLivePlayer code pid p s) = db_rooms s" "disk (setLivePlayer code pid p s) = disk s"
  "conns (setLivePlayer code pid p s) = conns s" "outbox (setLivePlayer code pid p s) = outbox s"
  by (simp_all add: setLivePlayer_def split: option.splits)

lemma playersSnapshot_cong:
  "liveRooms s = liveRooms s' \<Longrightarrow> conns s = conns s' \<Longrightarrow> playersSnapshot code s = playersSnapshot code s'"
  by (simp add: playersSnapshot_def isOpen_def cong: option.case_cong)

lemma join_known_db:
  "db_rooms (join_known e sock pn code r s) =
     AList.map_entry code
       (\<lambda>r. r\<lparr>players := Some (AList.update (genId e) \<lparr>name = pn, fichaData = JObj []\<rparr> (playersOrEmpty r))\<rparr>)
       (db_rooms s)"
  by (simp add: join_known_def Let_def split: option.splits)

lemma join_known_live:
  "liveRooms (join_known e sock pn code r s) =
     (liveRooms s)(code \<mapsto>
        (case liveRooms s code of
           None \<Rightarrow> \<lparr>masterWs = None,
                    live_players = AList.update (genId e) \<lparr>ws = Some sock, live_name = pn, live_fichaData = JObj []\<rparr> (restorePlayers r)\<rparr>
         | Some room \<Rightarrow> room\<lparr>live_players := AList.update (genId e) \<lparr>ws = Some sock, live_name = pn, live_fichaData = JObj []\<rparr> (live_players room)\<rparr>))"
  by (simp add: join_known_def Let_def setLivePlayer_def split: option.splits)

lemma join_known_conns:
  "conns (join_known e sock pn code r s) =
     (conns s)(sock := (conns s sock)
        \<lparr>role := JStr ''player'', roomCode := Some code, conn_name := pn, playerId := Some (genId e)\<rparr>)"
  by (simp add: join_known_def Let_def setLivePlayer_def split: option.splits)

lemma isOpen_cong: "readyState (conns s c) = readyState (conns s' c) \<Longrightarrow> isOpen s c = isOpen s' c"
  by (simp add: isOpen_def)

lemma outbox_send_broadcast:
  assumes "outbox s' = ob" "isOpen s' c = b"
  shows "\<exists>rest. outbox (broadcastRoom code d x (send c m s')) = ob @ (if b then [(c, m)] else []) @ rest
           \<and> snd ` set rest \<subseteq> {d}"
proof -
  obtain rest where "outbox (broadcastRoom code d x (send c m s')) = outbox (send c m s') @ rest"
      "snd ` set rest \<subseteq> {d}"
    using outbox_broadcastRoom by blast
  then show ?thesis using assms by (auto simp: outbox_send)
qed

lemma join_known_outbox:
  "\<exists>rest. outbox (join_known e sock pn code r s) =
      outbox s @ (if isOpen s sock then [(sock, RoomJoined code (sessionName r) (genId e))] else []) @ rest
    \<and> snd ` set rest \<subseteq> {PlayersUpdate (playersSnapshot code (join_known e sock pn code r s))}"
proof -
  have snap: "playersSnapshot code (broadcastRoom code d x s') = playersSnapshot code s'" for d x s'
    by (rule playersSnapshot_cong) simp_all
  show ?thesis
    unfolding join_known_def Let_def snap
    by (rule outbox_send_broadcast) (simp_all add: isOpen_def split: option.splits)
qed

subsection \<open>The effect of \<^verbatim>\<open>reconnect\<close> and of \<^verbatim>\<open>ficha_data\<close>\<close>

lemma reconnect_known_fields [simp]:
  "db_rooms (reconnect_known e sock msg code r s) = db_rooms s"
  "disk (reconnect_known e sock msg code r s) = disk s"
  by (simp_all add: reconnect_known_def Let_def split: option.splits)

lemma reconnect_known_conns:
  "conns (reconnect_known e sock msg code r s) =
     (conns s)(sock :=
        (if fld msg ''role'' = JStr ''master''
         then (conns s sock)\<lparr>roomCode := Some code, conn_name := fld msg ''name'', role := fld msg ''role''\<rparr>
         else (conns s sock)\<lparr>roomCode := Some code, conn_name := fld msg ''name'', role := fld msg ''role'',
                              playerId := Some (genId e)\<rparr>))"
  by (simp add: reconnect_known_def Let_def split: option.splits)

lemma reconnect_known_live:
  "liveRooms (reconnect_known e sock msg code r s) =
     (liveRooms s)(code \<mapsto>
        (let room = (case liveRooms s code of None \<Rightarrow> \<lparr>masterWs = None, live_players = []\<rparr> | Some room \<Rightarrow> room)
         in if fld msg ''role'' = JStr ''master'' then room\<lparr>masterWs := Some sock\<rparr>
            else room\<lparr>live_players := AList.update (genId e)
                   \<lparr>ws = Some sock, live_name = fld msg ''name'', live_fichaData = JObj []\<rparr> (live_players room)\<rparr>))"
  by (simp add: reconnect_known_def Let_def setLivePlayer_def split: option.splits)

lemma reconnect_str:
  "fld msg ''roomCode'' = JStr rc \<Longrightarrow>
   reconnect e sock msg s =
     Inr (case toUpperCase rc of
            None \<Rightarrow> s
          | Some code \<Rightarrow>
              (case map_of (db_rooms s) code of
                 None \<Rightarrow> s
               | Some r \<Rightarrow> if rc = [] then s else reconnect_known e sock msg code r s))"
  by (auto simp: reconnect_def toUpperCase.simps(1) split: option.splits)

lemma reconnect_frame:
  "(case reconnect e sock msg s of Inl err \<Rightarrow> True | Inr s' \<Rightarrow> db_rooms s' = db_rooms s \<and> disk s' = disk s)"
  by (simp add: reconnect_def split: sum.splits option.splits json.splits)


lemma ficha_data_fields [simp]:
  "disk (ficha_data sock msg s) = disk s" "conns (ficha_data sock msg s) = conns s"
  by (simp_all add: ficha_data_def Let_def split: option.splits)

lemma ficha_data_active:
  assumes "role (conns s sock) = JStr ''player''" "boundCode (conns s sock) = Some code"
    and "liveRooms s code = Some room"
  shows "ficha_data sock msg s =
     s\<lparr>liveRooms := (liveRooms s)(code \<mapsto>
          room\<lparr>live_players :=
            AList.map_entry (idKey (playerId (conns s sock)))
              (\<lambda>p. p\<lparr>live_fichaData := fld msg ''fichaData''\<rparr>) (live_players room)\<rparr>),
       db_rooms :=
          AList.map_entry code
            (\<lambda>r. case players r of
                   None \<Rightarrow> r
                 | Some ps \<Rightarrow>
                     r\<lparr>players := Some (AList.map_entry (idKey (playerId (conns s sock)))
                          (\<lambda>p. p\<lparr>fichaData := fld msg ''fichaData''\<rparr>) ps)\<rparr>)
            (db_rooms s),
       outbox := outbox s @
          (case masterWs room of
             None \<Rightarrow> []
           | Some m \<Rightarrow> if isOpen s m
                       then [(m, FichaUpdate (idJson (playerId (conns s sock))) (fld msg ''fichaData''))]
                       else [])\<rparr>"
  using assms by (simp add: ficha_data_def Let_def send_def isOpen_def split: option.splits)

lemma ficha_data_inactive:
  assumes "role (conns s sock) \<noteq> JStr ''player'' \<or> boundCode (conns s sock) = None
           \<or> (\<exists>code. boundCode (conns s sock) = Some code \<and> liveRooms s code = None)"
  shows "ficha_data sock msg s = s"
  using assms by (auto simp: ficha_data_def split: option.splits)






lemma handleMsg_join_known:
  assumes "fld msg ''type'' = JStr ''join_room''" "fld msg ''roomCode'' = JStr rc" "rc \<noteq> []"
    and "truthy (fld msg ''playerName'')"
    and "toUpperCase (trim rc) = Some code" "map_of (db_rooms s) code = Some r"
  shows "handleMsg e sock msg s = Inr (join_known e sock (fld msg ''playerName'') code r s)"
  using assms by (simp add: handleMsg_join join_room_def)

lemma join_known_persists:
  assumes "map_of (db_rooms s) code = Some r"
  shows "\<exists>r'. map_of (db_rooms (join_known e sock pn code r0 s)) code = Some r' \<and>
           map_of (playersOrEmpty r') (genId e) = Some \<lparr>name = pn, fichaData = JObj []\<rparr>"
  using assms by (simp add: join_known_db map_of_map_entry playersOrEmpty_def update_conv')

lemma join_room_depends:
  assumes "fld msg ''playerName'' = fld msg' ''playerName''"
    and "fld msg ''roomCode'' = JStr rc" "fld msg' ''roomCode'' = JStr rc'"
    and "rc \<noteq> []" "rc' \<noteq> []"
    and "toUpperCase (trim rc) = toUpperCase (trim rc')"
  shows "join_room e sock msg s = join_room e sock msg' s"
proof -
  have "join_room e sock m s =
      (if \<not> truthy (fld m ''playerName'') then Inr s
       else case toUpperCase (trim c) of
              None \<Rightarrow> Inr (send sock (RoomError room_not_found) s)
            | Some code \<Rightarrow>
                (case map_of (db_rooms s) code of
                   None \<Rightarrow> Inr (send sock (RoomError room_not_found) s)
                 | Some dbRoom \<Rightarrow> Inr (join_known e sock (fld m ''playerName'') code dbRoom s)))"
    if "fld m ''roomCode'' = JStr c" "c \<noteq> []" for m c
    using that by (simp add: join_room_def)
  from this[OF assms(2,4)] this[OF assms(3,5)] show ?thesis
    by (simp only: assms(1,6))
qed

lemma join_known_other_rooms:
  assumes "c \<noteq> code"
  shows "map_of (db_rooms (join_known e sock pn code r s)) c = map_of (db_rooms s) c"
    and "liveRooms (join_known e sock pn code r s) c = liveRooms s c"
  using assms by (simp_all add: join_known_db join_known_live map_of_map_entry)

lemma join_known_live_player:
  "\<exists>room'. liveRooms (join_known e sock pn code r s) code = Some room' \<and>
      map_of (live_players room') (genId e) = Some \<lparr>ws = Some sock, live_name = pn, live_fichaData = JObj []\<rparr>"
  by (simp add: join_known_live update_conv' split: option.splits)

lemma join_known_room_joined:
  assumes "isOpen s sock"
  shows "(sock, RoomJoined code (sessionName r) (genId e)) \<in> set (outbox (join_known e sock pn code r s))"
  using join_known_outbox[of e sock pn code r s] assms by auto

subsection \<open>The key of a value\<close>

lemma propKey_examples:
  "propKey (JNum 42) = Inr ''42''"
  "propKey (JNum (- 7)) = Inr ''-7''"
  "propKey (JArr [JNum 1, JNull, JArr [JStr ''a'', JBool True]]) = Inr ''1,,a,true''"
  "propKey (JObj [(''a'', JNum 1)]) = Inr ''[object Object]''"
  "propKey (JObj [(''toString'', JNum 1)]) = Inl TypeError"
  "propKey (JArr [JObj [(''toString'', JNull)]]) = Inl TypeError"
  by (simp_all add: intToString_def natToString_def nearest_def bits.simps Let_def
      toString10.simps digitChars_def)

lemma bits_1e21: "bits 1000000000000000000000 = 70"
  by (simp add: bits.simps)

lemma digits_1e21: "toString10 1000000000000000000000 = ''1000000000000000000000''"
  by (simp add: toString10.simps digitChars_def)

lemma nearest_1e21: "nearest 1000000000000000000000 = 1000000000000000000000"
  by (simp add: nearest_def bits_1e21 Let_def)

lemma nearest_rounds: "nearest 9007199254740993 = 9007199254740992"
  by (simp add: nearest_def bits.simps Let_def)

lemma shortest_1e21: "shortest 1000000000000000000000 = 1000000000000000000000"
proof -
  have r: "roundsTo 1000000000000000000000 1000000000000000000000"
    by (simp add: roundsTo_def bits_1e21 Let_def)
  have c: "candidates 1000000000000000000000 1 = [1000000000000000000000, 2000000000000000000000]"
    by (simp add: candidates_def digits_1e21 Let_def)
  have "[1..<18] = 1 # [2..<18]" by (simp add: upt_conv_Cons)
  then have "filter (roundsTo 1000000000000000000000) (concat (map (candidates 1000000000000000000000) [1..<18]))
     = 1000000000000000000000 # filter (roundsTo 1000000000000000000000)
         (2000000000000000000000 # concat (map (candidates 1000000000000000000000) [2..<18]))"
    by (simp only: list.map concat.simps c append.simps filter.simps r if_True)
  then show ?thesis by (simp only: shortest_def list.case)
qed

text \<open>From 22 digits on the key of a number is in the exponential form.\<close>

lemma propKey_1e21: "propKey (JNum 1000000000000000000000) = Inr ''1e+21''"
  by (simp add: intToString_def natToString_def nearest_1e21 shortest_1e21 exponential_def
      digits_1e21 Let_def toString10.simps digitChars_def)

subsection \<open>The effect of \<^verbatim>\<open>request_ficha\<close>\<close>

lemma openSocketOf_Some:
  "openSocketOf s room key = Some c \<longleftrightarrow>
     (\<exists>p. map_of (live_players room) key = Some p \<and> ws p = Some c \<and> isOpen s c)"
  by (auto simp: openSocketOf_def split: option.splits)

lemma openSocketOf_None:
  "openSocketOf s room key = None \<longleftrightarrow>
     \<not> (\<exists>p c. map_of (live_players room) key = Some p \<and> ws p = Some c \<and> isOpen s c)"
  by (auto simp: openSocketOf_def split: option.splits)

lemma request_ficha_live:
  assumes "role (conns s sock) = JStr ''master''" "boundCode (conns s sock) = Some code"
    and "liveRooms s code = Some room" and "propKey (fld msg ''playerId'') = Inr key"
  shows "request_ficha sock msg s =
     Inr (case openSocketOf s room key of
            Some c \<Rightarrow> send c SendFicha s
          | None \<Rightarrow> send sock (FichaUpdate (fld msg ''playerId'') (cachedFicha s code key)) s)"
  using assms by (simp add: request_ficha_def split: option.splits)

lemma request_ficha_throws:
  assumes "role (conns s sock) = JStr ''master''" "boundCode (conns s sock) = Some code"
    and "liveRooms s code = Some room" and "propKey (fld msg ''playerId'') = Inl err"
  shows "request_ficha sock msg s = Inl err"
  using assms by (simp add: request_ficha_def)

lemma request_ficha_not_live:
  assumes "boundCode (conns s sock) = Some code" "liveRooms s code = None"
  shows "request_ficha sock msg s = Inr s"
  using assms by (simp add: request_ficha_def)

lemma request_ficha_not_master:
  assumes "role (conns s sock) \<noteq> JStr ''master'' \<or> boundCode (conns s sock) = None"
  shows "request_ficha sock msg s = Inr s"
  using assms by (auto simp: request_ficha_def)

text \<open>
  An id that cannot be made a key: the handler throws, the \<^verbatim>\<open>message\<close> event catches
  it, and nothing is sent.
\<close>

lemma request_ficha_object_id:
  "handleMsg envA 0 requestObjectMsg joined = Inl TypeError"
  "onMessage envA 0 (Some requestObjectMsg) joined = joined"
proof -
  have t: "fld requestObjectMsg ''type'' = JStr ''request_ficha''"
    and k: "propKey (fld requestObjectMsg ''playerId'') = Inl TypeError"
    by (simp_all add: requestObjectMsg_def)
  have j: "role (conns joined 0) = JStr ''master''" "boundCode (conns joined 0) = Some ''VALVE-SSSS''"
    "liveRooms joined ''VALVE-SSSS'' = Some \<lparr>masterWs = Some 0,
        live_players = [(''loyw3v28k3x9q'', \<lparr>ws = Some 1, live_name = JStr ''Bo'', live_fichaData = JObj []\<rparr>)]\<rparr>"
    by (simp_all add: joined_eq openConn_def boundCode_def)
  show h: "handleMsg envA 0 requestObjectMsg joined = Inl TypeError"
    by (simp add: handleMsg_request_ficha[OF t] request_ficha_throws[OF j k])
  show "onMessage envA 0 (Some requestObjectMsg) joined = joined"
    by (simp add: onMessage_def h)
qed

subsection \<open>The sweeper\<close>

lemma fold_sweepEntry:
  "map_of (db_rooms (fst (fold (sweepEntry cutoff) es acc))) c =
     (if \<exists>room. (c, room) \<in> set es \<and> createdAt room < cutoff then None
      else map_of (db_rooms (fst acc)) c)
   \<and> liveRooms (fst (fold (sweepEntry cutoff) es acc)) c =
     (if \<exists>room. (c, room) \<in> set es \<and> createdAt room < cutoff then None
      else liveRooms (fst acc) c)"
proof (induction es arbitrary: acc)
  case Nil
  then show ?case by simp
next
  case (Cons x es)
  show ?case
    using Cons.IH[of "sweepEntry cutoff x acc"]
    by (cases x) (auto simp: sweepEntry_def delete_conv')
qed

lemma fold_sweepEntry_frame:
  "conns (fst (fold (sweepEntry cutoff) es acc)) = conns (fst acc)
   \<and> outbox (fst (fold (sweepEntry cutoff) es acc)) = outbox (fst acc)
   \<and> disk (fst (fold (sweepEntry cutoff) es acc)) = disk (fst acc)"
  by (induction es arbitrary: acc) (simp_all add: sweepEntry_def)

lemma sweep_fst:
  "db_rooms (sweep e s) = db_rooms (fst (fold (sweepEntry (int (now e) - ttl)) (ownEntries (db_rooms s)) (s, False)))"
  "liveRooms (sweep e s) = liveRooms (fst (fold (sweepEntry (int (now e) - ttl)) (ownEntries (db_rooms s)) (s, False)))"
  by (simp_all add: sweep_def Let_def)

lemma sweep_lookup:
  "map_of (db_rooms (sweep e s)) c =
     (if \<exists>room. (c, room) \<in> set (db_rooms s) \<and> createdAt room < int (now e) - ttl then None
      else map_of (db_rooms s) c)"
  "liveRooms (sweep e s) c =
     (if \<exists>room. (c, room) \<in> set (db_rooms s) \<and> createdAt room < int (now e) - ttl then None
      else liveRooms s c)"
  by (simp_all only: sweep_fst fold_sweepEntry fst_conv set_ownEntries)

lemma sweep_frame: "conns (sweep e s) = conns s" "outbox (sweep e s) = outbox s"
  using fold_sweepEntry_frame[of "int (now e) - ttl" "ownEntries (db_rooms s)" "(s, False)"]
  by (simp_all add: sweep_def Let_def)

lemma sweep_entry:
  assumes "distinct (map fst (db_rooms s))" "map_of (db_rooms s) code = Some room"
  shows "(\<exists>room'. (code, room') \<in> set (db_rooms s) \<and> createdAt room' < int (now e) - ttl)
         \<longleftrightarrow> ttl < int (now e) - createdAt room"
proof -
  have "(code, room') \<in> set (db_rooms s) \<longleftrightarrow> room' = room" for room'
    using assms by (metis map_of_eq_Some_iff option.inject)
  then show ?thesis by auto
qed

subsection \<open>The keys of the durable store stay distinct\<close>

lemma create_room_distinct:
  "distinct (map fst (db_rooms s)) \<Longrightarrow> distinct (map fst (db_rooms (create_room e sock msg s)))"
  by (simp add: create_room_def Let_def distinct_update)

lemma join_room_distinct:
  "distinct (map fst (db_rooms s)) \<Longrightarrow> join_room e sock msg s = Inr s' \<Longrightarrow>
   distinct (map fst (db_rooms s'))"
  by (auto simp: join_room_def join_known_db distinct_map_entry
      split: if_splits json.splits option.splits)

lemma reconnect_distinct:
  "distinct (map fst (db_rooms s)) \<Longrightarrow> reconnect e sock msg s = Inr s' \<Longrightarrow>
   distinct (map fst (db_rooms s'))"
  using reconnect_frame[where e=e and sock=sock and msg=msg and s=s] by simp

lemma ficha_data_distinct:
  assumes "distinct (map fst (db_rooms s))"
  shows "distinct (map fst (db_rooms (ficha_data sock msg s)))"
proof (cases "role (conns s sock) = JStr ''player'' \<and> (\<exists>code room. boundCode (conns s sock) = Some code \<and> liveRooms s code = Some room)")
  case True
  then obtain code room where "role (conns s sock) = JStr ''player''" "boundCode (conns s sock) = Some code"
      "liveRooms s code = Some room" by blast
  from ficha_data_active[OF this, of msg] show ?thesis
    using assms by (simp add: distinct_map_entry)
next
  case False
  then have "ficha_data sock msg s = s"
    by (intro ficha_data_inactive) (cases "boundCode (conns s sock)"; cases "liveRooms s (the (boundCode (conns s sock)))"; auto)
  then show ?thesis using assms by simp
qed

lemma request_ficha_db: "request_ficha sock msg s = Inr s' \<Longrightarrow> db_rooms s' = db_rooms s"
  by (auto simp: request_ficha_def split: if_splits option.splits sum.splits)

lemma handleMsg_distinct:
  assumes "distinct (map fst (db_rooms s))" and "handleMsg e sock msg s = Inr s'"
  shows "distinct (map fst (db_rooms s'))"
  using assms create_room_distinct[of s e sock msg] join_room_distinct[of s e sock msg s']
    reconnect_distinct[of s e sock msg s'] ficha_data_distinct[of s sock msg]
    request_ficha_db[of sock msg s s']
  by (auto simp: handleMsg_def split: if_splits)

lemma fold_sweepEntry_distinct:
  "distinct (map fst (db_rooms (fst acc))) \<Longrightarrow>
   distinct (map fst (db_rooms (fst (fold (sweepEntry cutoff) es acc))))"
  by (induction es arbitrary: acc) (simp_all add: sweepEntry_def distinct_delete)

lemma sweep_distinct:
  "distinct (map fst (db_rooms s)) \<Longrightarrow> distinct (map fst (db_rooms (sweep e s)))"
  using fold_sweepEntry_distinct[of "(s, False)" "int (now e) - ttl" "ownEntries (db_rooms s)"]
  by (simp add: sweep_fst)

subsection \<open>Rooms restored from the durable store\<close>

lemma fold_restore_keys:
  "fst ` set (fold (\<lambda>(pid, p). AList.update pid (f p)) xs acc) = fst ` set xs \<union> fst ` set acc"
proof (induction xs arbitrary: acc)
  case Nil
  then show ?case by simp
next
  case (Cons x xs)
  have "fst ` set (fold (\<lambda>(pid, p). AList.update pid (f p)) (x # xs) acc)
          = fst ` set xs \<union> fst ` set (AList.update (fst x) (f (snd x)) acc)"
    by (cases x) (simp add: Cons.IH)
  also have "\<dots> = fst ` set xs \<union> ({fst x} \<union> fst ` set acc)"
    by (simp only: dom_update)
  also have "\<dots> = fst ` set (x # xs) \<union> fst ` set acc"
    by auto
  finally show ?case .
qed

lemma restorePlayers_keys: "fst ` set (restorePlayers r) = fst ` set (playersOrEmpty r)"
  unfolding restorePlayers_def by (subst fold_restore_keys) simp

lemma playersSnapshot_keys:
  "liveRooms s code = Some room \<Longrightarrow>
   map fst (playersSnapshot code s) = map fst (ownEntries (live_players room))"
  by (simp add: playersSnapshot_def case_prod_beta)

lemma join_room_restores_durable_participants:
  assumes "map_of (db_rooms s) code = Some r" and "liveRooms s code = None"
  shows "\<exists>r' room'. map_of (db_rooms (join_known e sock pn code r s)) code = Some r' \<and>
           liveRooms (join_known e sock pn code r s) code = Some room' \<and>
           fst ` set (playersOrEmpty r') \<subseteq> fst ` set (live_players room') \<and>
           fst ` set (playersOrEmpty r') \<subseteq> fst ` set (playersSnapshot code (join_known e sock pn code r s))"
proof -
  let ?s' = "join_known e sock pn code r s"
  let ?r' = "r\<lparr>players := Some (AList.update (genId e) \<lparr>name = pn, fichaData = JObj []\<rparr> (playersOrEmpty r))\<rparr>"
  let ?room' = "\<lparr>masterWs = None,
      live_players = AList.update (genId e) \<lparr>ws = Some sock, live_name = pn, live_fichaData = JObj []\<rparr> (restorePlayers r)\<rparr>"
  have d: "map_of (db_rooms ?s') code = Some ?r'"
    using assms(1) by (simp add: join_known_db map_of_map_entry)
  have l: "liveRooms ?s' code = Some ?room'"
    using assms(2) by (simp add: join_known_live)
  have k: "fst ` set (playersOrEmpty ?r') \<subseteq> fst ` set (live_players ?room')"
    by (simp add: playersOrEmpty_def dom_update restorePlayers_keys)
  have "set (map fst (playersSnapshot code ?s')) = set (map fst (live_players ?room'))"
    using playersSnapshot_keys[OF l] by (simp only: set_map set_ownEntries)
  then have "fst ` set (playersSnapshot code ?s') = fst ` set (live_players ?room')"
    by (simp only: set_map)
  then have k2: "fst ` set (playersOrEmpty ?r') \<subseteq> fst ` set (playersSnapshot code ?s')"
    using k by (simp only:)
  show ?thesis
    by (rule exI[of _ ?r'], rule exI[of _ ?room']) (intro conjI d l k k2)
qed

subsection \<open>Lookups in the snapshot\<close>

lemma map_of_map_keyed:
  "map_of (map (\<lambda>(k, v). (k, f k v)) xs) k = map_option (f k) (map_of xs k)"
  by (induction xs) auto

lemma playersSnapshot_lookup:
  assumes "liveRooms s code = Some room"
  shows "map_of (playersSnapshot code s) k =
     map_option (\<lambda>p. \<lparr>snap_id = k, snap_name = live_name p,
                        online = (case ws p of None \<Rightarrow> False | Some c \<Rightarrow> isOpen s c)\<rparr>)
       (map_of (live_players room) k)"
  using assms by (simp add: playersSnapshot_def map_of_map_keyed)

lemma join_known_sessionName:
  assumes "map_of (db_rooms s) code = Some r"
  shows "\<exists>r'. map_of (db_rooms (join_known e sock pn code r0 s)) code = Some r' \<and>
           sessionName r' = sessionName r \<and>
           (\<forall>k. k \<noteq> genId e \<longrightarrow> map_of (playersOrEmpty r') k = map_of (playersOrEmpty r) k) \<and>
           map_of (playersOrEmpty r') (genId e) = Some \<lparr>name = pn, fichaData = JObj []\<rparr>"
  using assms by (simp add: join_known_db map_of_map_entry playersOrEmpty_def update_conv')

lemma join_known_live_players:
  "\<exists>room'. liveRooms (join_known e sock pn code r s) code = Some room' \<and>
      map_of (live_players room') (genId e) = Some \<lparr>ws = Some sock, live_name = pn, live_fichaData = JObj []\<rparr> \<and>
      (\<forall>room k. liveRooms s code = Some room \<and> k \<noteq> genId e \<longrightarrow>
          map_of (live_players room') k = map_of (live_players room) k)"
  by (simp add: join_known_live update_conv' split: option.splits)

subsection \<open>More of the example session\<close>

lemma genId_envB [simp]: "genId envB = ''lp1t4q68p07mz''"
  by (simp add: genId_def toString36.simps digitChars_def)

lemma joinedTwice_eq:
  "joinedTwice = \<lparr>db_rooms = [(''VALVE-SSSS'', roomA [(''loyw3v28k3x9q'', \<lparr>name = JStr ''Bo'', fichaData = JObj []\<rparr>)])],
     disk = [(''VALVE-SSSS'', roomA [(''loyw3v28k3x9q'', \<lparr>name = JStr ''Bo'', fichaData = JObj []\<rparr>)])],
     liveRooms = [''VALVE-SSSS'' \<mapsto> \<lparr>masterWs = Some 0, live_players = [(''loyw3v28k3x9q'', \<lparr>ws = Some 2, live_name = JStr ''Bo'', live_fichaData = JObj []\<rparr>)]\<rparr>],
     conns = (\<lambda>c. closedConn)(0 := openConn (JStr ''master'') (Some ''VALVE-SSSS'') (JStr ''Ana'') None,
                1 := openConn (JStr ''player'') (Some ''VALVE-SSSS'') (JStr ''Bo'') (Some ''loyw3v28k3x9q''),
                2 := openConn (JStr ''player'') (Some ''VALVE-SSSS'') (JStr ''Bo'') (Some ''loyw3v28k3x9q'')),
     outbox = outbox joined @
              [(2, RoomJoined ''VALVE-SSSS'' (JStr ''Campaign 1'') ''loyw3v28k3x9q''),
               (0, PlayersUpdate [(''loyw3v28k3x9q'', \<lparr>snap_id = ''loyw3v28k3x9q'', snap_name = JStr ''Bo'', online = True\<rparr>)]),
               (2, PlayersUpdate [(''loyw3v28k3x9q'', \<lparr>snap_id = ''loyw3v28k3x9q'', snap_name = JStr ''Bo'', online = True\<rparr>)])]\<rparr>"
  by (simp add: joinedTwice_def joined_eq onMessage_def handleMsg_def joinMsg_def join_room_def join_known_def Let_def normalize_ssss
      onConnection_def saveDB_def send_def isOpen_def roomA_def openConn_def setLivePlayer_def broadcastRoom_def
      sendUnlessExcluded_def playersSnapshot_def playersOrEmpty_def ownEntries_def)

lemma handleMsg_join_examples:
  "handleMsg envA 1 joinMsg (onConnection 1 created) = Inr joined"
  "handleMsg envA 2 joinMsg (onConnection 2 joined) = Inr joinedTwice"
proof -
  have t: "fld joinMsg ''type'' = JStr ''join_room''" "fld joinMsg ''roomCode'' = JStr '' valve-ssss ''"
    "'' valve-ssss '' \<noteq> []" "truthy (fld joinMsg ''playerName'')"
    by (simp_all add: joinMsg_def)
  have "map_of (db_rooms (onConnection 1 created)) ''VALVE-SSSS'' = Some (roomA [])"
    by (simp add: created_eq onConnection_def)
  from handleMsg_join_known[OF t normalize_ssss this, of envA 1]
  show "handleMsg envA 1 joinMsg (onConnection 1 created) = Inr joined"
    by (simp add: joined_def onMessage_def)
  have "map_of (db_rooms (onConnection 2 joined)) ''VALVE-SSSS''
          = Some (roomA [(''loyw3v28k3x9q'', \<lparr>name = JStr ''Bo'', fichaData = JObj []\<rparr>)])"
    by (simp add: joined_eq onConnection_def)
  from handleMsg_join_known[OF t normalize_ssss this, of envA 2]
  show "handleMsg envA 2 joinMsg (onConnection 2 joined) = Inr joinedTwice"
    by (simp add: joinedTwice_def onMessage_def)
qed

lemma joinedAfter_eq:
  "joinedAfter = \<lparr>db_rooms = [(''VALVE-SSSS'', roomA [(''loyw3v28k3x9q'', \<lparr>name = JStr ''Bo'', fichaData = sheet\<rparr>),
                                                   (''lp1t4q68p07mz'', \<lparr>name = JStr ''Bo'', fichaData = JObj []\<rparr>)])],
     disk = [(''VALVE-SSSS'', roomA [(''loyw3v28k3x9q'', \<lparr>name = JStr ''Bo'', fichaData = sheet\<rparr>),
                                     (''lp1t4q68p07mz'', \<lparr>name = JStr ''Bo'', fichaData = JObj []\<rparr>)])],
     liveRooms = [''VALVE-SSSS'' \<mapsto> \<lparr>masterWs = Some 0, live_players = [(''lp1t4q68p07mz'', \<lparr>ws = Some 1, live_name = JStr ''Bo'', live_fichaData = JObj []\<rparr>)]\<rparr>],
     conns = (\<lambda>c. closedConn)(0 := openConn (JStr ''master'') (Some ''VALVE-SSSS'') (JStr ''Ana'') None,
                1 := openConn (JStr ''player'') (Some ''VALVE-SSSS'') (JStr ''Bo'') (Some ''lp1t4q68p07mz'')),
     outbox = outbox masterBack @
              [(1, RoomJoined ''VALVE-SSSS'' (JStr ''Campaign 1'') ''lp1t4q68p07mz''),
               (0, PlayersUpdate [(''lp1t4q68p07mz'', \<lparr>snap_id = ''lp1t4q68p07mz'', snap_name = JStr ''Bo'', online = True\<rparr>)]),
               (1, PlayersUpdate [(''lp1t4q68p07mz'', \<lparr>snap_id = ''lp1t4q68p07mz'', snap_name = JStr ''Bo'', online = True\<rparr>)])]\<rparr>"
  by (simp add: joinedAfter_def masterBack_eq onMessage_def handleMsg_def joinMsg_def join_room_def join_known_def Let_def normalize_ssss
      onConnection_def saveDB_def send_def isOpen_def roomA_def openConn_def setLivePlayer_def broadcastRoom_def
      sendUnlessExcluded_def playersSnapshot_def playersOrEmpty_def ownEntries_def)

lemma left_eq:
  "left = \<lparr>db_rooms = [(''VALVE-SSSS'', roomA [(''loyw3v28k3x9q'', \<lparr>name = JStr ''Bo'', fichaData = sheet\<rparr>)])],
     disk = [(''VALVE-SSSS'', roomA [(''loyw3v28k3x9q'', \<lparr>name = JStr ''Bo'', fichaData = JObj []\<rparr>)])],
     liveRooms = [''VALVE-SSSS'' \<mapsto> \<lparr>masterWs = Some 0, live_players = [(''loyw3v28k3x9q'', \<lparr>ws = None, live_name = JStr ''Bo'', live_fichaData = sheet\<rparr>)]\<rparr>],
     conns = (\<lambda>c. closedConn)(0 := openConn (JStr ''master'') (Some ''VALVE-SSSS'') (JStr ''Ana'') None,
                1 := (openConn (JStr ''player'') (Some ''VALVE-SSSS'') (JStr ''Bo'') (Some ''loyw3v28k3x9q''))\<lparr>readyState := CLOSED\<rparr>),
     outbox = outbox updated @
       [(0, PlayersUpdate [(''loyw3v28k3x9q'', \<lparr>snap_id = ''loyw3v28k3x9q'', snap_name = JStr ''Bo'', online = False\<rparr>)])]\<rparr>"
  by (simp add: left_def onClose_def handleDisconnect_def updated_eq boundCode_def openConn_def idKey_def Let_def
      broadcastRoom_def sendUnlessExcluded_def playersSnapshot_def isOpen_def ownEntries_def)



section \<open>Claims\<close>

subsection \<open>C1: the live registry after a reconciliation\<close>

text \<open>
  C1 asks that a room materialized by \<^verbatim>\<open>join_room\<close> or \<^verbatim>\<open>reconnect\<close> holds every
  participant of the durable store, so that the snapshot lists them all. \<^verbatim>\<open>join_room\<close>
  restores them (lemma \<open>join_room_restores_durable_participants\<close>); \<^verbatim>\<open>reconnect\<close>
  creates the room with no participant. The run below is the failing input: Bo joined
  and sent a sheet, the store was saved and the process restarted. The durable store
  holds Bo; Ana reconnects as master on a new socket; the room is materialized empty
  and the \<^verbatim>\<open>players_update\<close> sent to her lists nobody. A player who joins after that
  finds the room live, so nothing is restored then either: the snapshot lists the
  newcomer only.
\<close>

theorem reconnect_materializes_without_durable_participants:
  "map_of (db_rooms restarted) ''VALVE-SSSS'' = Some (roomA [(boId, \<lparr>name = JStr ''Bo'', fichaData = sheet\<rparr>)]) \<and>
   liveRooms restarted ''VALVE-SSSS'' = None \<and>
   fld reconnectMasterMsg ''type'' = JStr ''reconnect'' \<and>
   handleMsg envB 0 reconnectMasterMsg restarted = Inr masterBack \<and>
   db_rooms masterBack = db_rooms restarted \<and>
   liveRooms masterBack ''VALVE-SSSS'' = Some \<lparr>masterWs = Some 0, live_players = []\<rparr> \<and>
   playersSnapshot ''VALVE-SSSS'' masterBack = [] \<and>
   outbox masterBack =
     [(0, RoomCreated ''VALVE-SSSS'' (JStr ''Campaign 1'') (JStr ''Ana'')), (0, PlayersUpdate [])] \<and>
   handleMsg envB 1 joinMsg (onConnection 1 masterBack) = Inr joinedAfter \<and>
   map fst (playersSnapshot ''VALVE-SSSS'' joinedAfter) = [genId envB] \<and>
   genId envB \<noteq> boId"
proof -
  have t: "fld reconnectMasterMsg ''type'' = JStr ''reconnect''"
    and c: "fld reconnectMasterMsg ''roomCode'' = JStr ''VALVE-SSSS''"
    by (simp_all add: reconnectMasterMsg_def)
  have d: "map_of (db_rooms restarted) ''VALVE-SSSS'' = Some (roomA [(boId, \<lparr>name = JStr ''Bo'', fichaData = sheet\<rparr>)])"
    and l: "liveRooms restarted ''VALVE-SSSS'' = None"
    by (simp_all add: restarted_eq boId_def)
  have "reconnect envB 0 reconnectMasterMsg restarted =
          Inr (reconnect_known envB 0 reconnectMasterMsg ''VALVE-SSSS''
                 (roomA [(boId, \<lparr>name = JStr ''Bo'', fichaData = sheet\<rparr>)]) restarted)"
    using d by (simp add: reconnect_str[OF c] upper_VALVE)
  then have h: "handleMsg envB 0 reconnectMasterMsg restarted = Inr masterBack"
    by (simp add: handleMsg_reconnect[OF t] masterBack_def onMessage_def)
  have jt: "fld joinMsg ''type'' = JStr ''join_room''" "fld joinMsg ''roomCode'' = JStr '' valve-ssss ''"
    "'' valve-ssss '' \<noteq> []" "truthy (fld joinMsg ''playerName'')"
    by (simp_all add: joinMsg_def)
  have "map_of (db_rooms (onConnection 1 masterBack)) ''VALVE-SSSS''
          = Some (roomA [(''loyw3v28k3x9q'', \<lparr>name = JStr ''Bo'', fichaData = sheet\<rparr>)])"
    by (simp add: masterBack_eq onConnection_def)
  from handleMsg_join_known[OF jt normalize_ssss this, of envB 1]
  have j: "handleMsg envB 1 joinMsg (onConnection 1 masterBack) = Inr joinedAfter"
    by (simp add: joinedAfter_def onMessage_def)
  have m: "db_rooms masterBack = db_rooms restarted"
    "liveRooms masterBack ''VALVE-SSSS'' = Some \<lparr>masterWs = Some 0, live_players = []\<rparr>"
    "playersSnapshot ''VALVE-SSSS'' masterBack = []"
    "outbox masterBack =
       [(0, RoomCreated ''VALVE-SSSS'' (JStr ''Campaign 1'') (JStr ''Ana'')), (0, PlayersUpdate [])]"
    by (simp_all add: masterBack_eq restarted_eq playersSnapshot_def ownEntries_def)
  have s: "map fst (playersSnapshot ''VALVE-SSSS'' joinedAfter) = [genId envB]" "genId envB \<noteq> boId"
    by (simp_all add: joinedAfter_eq playersSnapshot_def boId_def ownEntries_def)
  show ?thesis by (intro conjI; fact)
qed

subsection \<open>C2: ficha_data\<close>




subsection \<open>C3: reconnect does not persist the participant\<close>




subsection \<open>C4: join_room with an unknown code\<close>




subsection \<open>C5: two joins with the same name\<close>

text \<open>
  C5, as stated: two successive \<^verbatim>\<open>join_room\<close> messages on the same room with the same
  player name yield two distinct participant ids, and the snapshot lists both. The id
  is the clock in base 36 followed by a random suffix, and nothing checks it against
  the ids in use. Here the second join comes within the same millisecond and draws the
  same suffix: both sockets are told the same id, the second participant replaces the
  first, and the snapshot lists one.
\<close>

theorem two_joins_same_name_counterexample:
  "fld joinMsg ''type'' = JStr ''join_room'' \<and> fld joinMsg ''playerName'' = JStr ''Bo'' \<and>
   toUpperCase (trim '' valve-ssss '') = Some ''VALVE-SSSS'' \<and>
   map_of (db_rooms (onConnection 1 created)) ''VALVE-SSSS'' = Some (roomA []) \<and>
   handleMsg envA 1 joinMsg (onConnection 1 created) = Inr joined \<and>
   handleMsg envA 2 joinMsg (onConnection 2 joined) = Inr joinedTwice \<and>
   playerId (conns joined 1) = Some boId \<and>
   playerId (conns joinedTwice 2) = Some boId \<and>
   (1, RoomJoined ''VALVE-SSSS'' (JStr ''Campaign 1'') boId) \<in> set (outbox joined) \<and>
   (2, RoomJoined ''VALVE-SSSS'' (JStr ''Campaign 1'') boId) \<in> set (outbox joinedTwice) \<and>
   playersSnapshot ''VALVE-SSSS'' joinedTwice =
     [(boId, \<lparr>snap_id = boId, snap_name = JStr ''Bo'', online = True\<rparr>)]"
proof -
  have "fld joinMsg ''type'' = JStr ''join_room'' \<and> fld joinMsg ''playerName'' = JStr ''Bo''"
    by (simp add: joinMsg_def)
  moreover have "map_of (db_rooms (onConnection 1 created)) ''VALVE-SSSS'' = Some (roomA [])"
    by (simp add: created_eq onConnection_def)
  moreover have "playerId (conns joined 1) = Some boId \<and> playerId (conns joinedTwice 2) = Some boId"
    by (simp add: joined_eq joinedTwice_eq openConn_def boId_def)
  moreover have "(1, RoomJoined ''VALVE-SSSS'' (JStr ''Campaign 1'') boId) \<in> set (outbox joined)"
    by (simp add: joined_eq boId_def)
  moreover have "(2, RoomJoined ''VALVE-SSSS'' (JStr ''Campaign 1'') boId) \<in> set (outbox joinedTwice)"
    by (simp add: joinedTwice_eq boId_def)
  moreover have "playersSnapshot ''VALVE-SSSS'' joinedTwice =
     [(boId, \<lparr>snap_id = boId, snap_name = JStr ''Bo'', online = True\<rparr>)]"
    by (simp add: joinedTwice_eq playersSnapshot_def isOpen_def openConn_def boId_def ownEntries_def)
  ultimately show ?thesis using handleMsg_join_examples normalize_ssss by blast
qed

text \<open>
  C5, amended: two successive \<^verbatim>\<open>join_room\<close> messages on the same existing room code
  (their codes normalize to it) with the same non-empty player name both succeed; each
  binds its socket to the id \<^verbatim>\<open>genId\<close> returns, which is computed from the clock and the
  random draw and not from the name, and tells it to the sender in \<^verbatim>\<open>room_joined\<close> when
  the sender's socket is open. The snapshot afterwards lists the second participant
  under that name and, whenever the two ids differ, the first as well; both are then in
  the durable store.
\<close>

theorem two_joins_same_name:
  assumes "fld msg1 ''type'' = JStr ''join_room''" and "fld msg1 ''roomCode'' = JStr rc1"
    and "rc1 \<noteq> []" and "toUpperCase (trim rc1) = Some code"
    and "fld msg2 ''type'' = JStr ''join_room''" and "fld msg2 ''roomCode'' = JStr rc2"
    and "rc2 \<noteq> []" and "toUpperCase (trim rc2) = Some code"
    and "fld msg1 ''playerName'' = pn" and "fld msg2 ''playerName'' = pn" and "truthy pn"
    and "map_of (db_rooms s) code = Some r"
  shows "\<exists>s1 s2. handleMsg e1 sock1 msg1 s = Inr s1 \<and> handleMsg e2 sock2 msg2 s1 = Inr s2 \<and>
           playerId (conns s1 sock1) = Some (genId e1) \<and>
           playerId (conns s2 sock2) = Some (genId e2) \<and>
           (isOpen s sock1 \<longrightarrow> (sock1, RoomJoined code (sessionName r) (genId e1)) \<in> set (outbox s1)) \<and>
           (isOpen s sock2 \<longrightarrow> (sock2, RoomJoined code (sessionName r) (genId e2)) \<in> set (outbox s2)) \<and>
           (\<exists>en. map_of (playersSnapshot code s2) (genId e2) = Some en \<and>
                  snap_id en = genId e2 \<and> snap_name en = pn) \<and>
           (genId e1 \<noteq> genId e2 \<longrightarrow>
              (\<exists>en. map_of (playersSnapshot code s2) (genId e1) = Some en \<and>
                     snap_id en = genId e1 \<and> snap_name en = pn) \<and>
              (\<exists>r2. map_of (db_rooms s2) code = Some r2 \<and>
                 map_of (playersOrEmpty r2) (genId e1) = Some \<lparr>name = pn, fichaData = JObj []\<rparr> \<and>
                 map_of (playersOrEmpty r2) (genId e2) = Some \<lparr>name = pn, fichaData = JObj []\<rparr>))"
proof -
  let ?s1 = "join_known e1 sock1 pn code r s"
  have h1: "handleMsg e1 sock1 msg1 s = Inr ?s1"
    using handleMsg_join_known[OF assms(1,2,3) _ assms(4,12), of e1 sock1] assms(9,11) by simp
  obtain r1 where r1: "map_of (db_rooms ?s1) code = Some r1" "sessionName r1 = sessionName r"
    "map_of (playersOrEmpty r1) (genId e1) = Some \<lparr>name = pn, fichaData = JObj []\<rparr>"
    using join_known_sessionName[OF assms(12), of e1 sock1 pn r] by blast
  let ?s2 = "join_known e2 sock2 pn code r1 ?s1"
  have h2: "handleMsg e2 sock2 msg2 ?s1 = Inr ?s2"
    using handleMsg_join_known[OF assms(5,6,7) _ assms(8) r1(1), of e2 sock2] assms(10,11) by simp
  obtain room1 where room1: "liveRooms ?s1 code = Some room1"
    "map_of (live_players room1) (genId e1) = Some \<lparr>ws = Some sock1, live_name = pn, live_fichaData = JObj []\<rparr>"
    using join_known_live_players[of e1 sock1 pn code r s] by blast
  obtain room2 where room2: "liveRooms ?s2 code = Some room2"
    "map_of (live_players room2) (genId e2) = Some \<lparr>ws = Some sock2, live_name = pn, live_fichaData = JObj []\<rparr>"
    "\<forall>room k. liveRooms ?s1 code = Some room \<and> k \<noteq> genId e2 \<longrightarrow>
          map_of (live_players room2) k = map_of (live_players room) k"
    using join_known_live_players[of e2 sock2 pn code r1 ?s1] by blast
  obtain r2 where r2: "map_of (db_rooms ?s2) code = Some r2"
    "\<forall>k. k \<noteq> genId e2 \<longrightarrow> map_of (playersOrEmpty r2) k = map_of (playersOrEmpty r1) k"
    "map_of (playersOrEmpty r2) (genId e2) = Some \<lparr>name = pn, fichaData = JObj []\<rparr>"
    using join_known_sessionName[OF r1(1), of e2 sock2 pn r1] by blast
  have p1: "playerId (conns ?s1 sock1) = Some (genId e1)" by (simp add: join_known_conns)
  have p2: "playerId (conns ?s2 sock2) = Some (genId e2)" by (simp add: join_known_conns)
  have o1: "isOpen s sock1 \<longrightarrow> (sock1, RoomJoined code (sessionName r) (genId e1)) \<in> set (outbox ?s1)"
    using join_known_room_joined by blast
  have "isOpen ?s1 sock2 = isOpen s sock2"
    by (simp add: isOpen_def join_known_conns)
  then have o2: "isOpen s sock2 \<longrightarrow> (sock2, RoomJoined code (sessionName r) (genId e2)) \<in> set (outbox ?s2)"
    using join_known_room_joined[of ?s1 sock2 code r1 e2 pn] r1(2) by simp
  have sn2: "\<exists>en. map_of (playersSnapshot code ?s2) (genId e2) = Some en \<and>
                  snap_id en = genId e2 \<and> snap_name en = pn"
    by (simp add: playersSnapshot_lookup[OF room2(1)] room2(2))
  have both: "genId e1 \<noteq> genId e2 \<longrightarrow>
              (\<exists>en. map_of (playersSnapshot code ?s2) (genId e1) = Some en \<and>
                     snap_id en = genId e1 \<and> snap_name en = pn) \<and>
              (\<exists>r2. map_of (db_rooms ?s2) code = Some r2 \<and>
                 map_of (playersOrEmpty r2) (genId e1) = Some \<lparr>name = pn, fichaData = JObj []\<rparr> \<and>
                 map_of (playersOrEmpty r2) (genId e2) = Some \<lparr>name = pn, fichaData = JObj []\<rparr>)"
  proof
    assume ne: "genId e1 \<noteq> genId e2"
    then have "map_of (live_players room2) (genId e1) = map_of (live_players room1) (genId e1)"
      using room2(3) room1(1) by blast
    then have a: "\<exists>en. map_of (playersSnapshot code ?s2) (genId e1) = Some en \<and>
                     snap_id en = genId e1 \<and> snap_name en = pn"
      by (simp add: playersSnapshot_lookup[OF room2(1)] room1(2))
    have "map_of (playersOrEmpty r2) (genId e1) = Some \<lparr>name = pn, fichaData = JObj []\<rparr>"
      using r2(2) ne r1(3) by simp
    then show "(\<exists>en. map_of (playersSnapshot code ?s2) (genId e1) = Some en \<and>
                     snap_id en = genId e1 \<and> snap_name en = pn) \<and>
              (\<exists>r2. map_of (db_rooms ?s2) code = Some r2 \<and>
                 map_of (playersOrEmpty r2) (genId e1) = Some \<lparr>name = pn, fichaData = JObj []\<rparr> \<and>
                 map_of (playersOrEmpty r2) (genId e2) = Some \<lparr>name = pn, fichaData = JObj []\<rparr>)"
      using a r2(1,3) by blast
  qed
  show ?thesis
    using h1 h2 p1 p2 o1 o2 sn2 both by blast
qed

text \<open>
  The witness: Bo joins on socket 1, and 49 hours later another Bo joins on socket 2;
  the ids differ and the snapshot lists both.
\<close>

theorem two_joins_same_name_witness:
  "fld joinMsg ''type'' = JStr ''join_room'' \<and> fld joinMsg ''roomCode'' = JStr '' valve-ssss '' \<and>
   fld joinCanonicalMsg ''type'' = JStr ''join_room'' \<and> fld joinCanonicalMsg ''roomCode'' = JStr ''VALVE-SSSS'' \<and>
   fld joinMsg ''playerName'' = JStr ''Bo'' \<and> fld joinCanonicalMsg ''playerName'' = JStr ''Bo'' \<and>
   map_of (db_rooms (onConnection 2 (onConnection 1 created))) ''VALVE-SSSS'' = Some (roomA []) \<and>
   genId envA \<noteq> genId envB \<and>
   (\<exists>s1 s2. handleMsg envA 1 joinMsg (onConnection 2 (onConnection 1 created)) = Inr s1 \<and>
      handleMsg envB 2 joinCanonicalMsg s1 = Inr s2 \<and>
      playerId (conns s1 1) = Some (genId envA) \<and>
      playerId (conns s2 2) = Some (genId envB) \<and>
      (1, RoomJoined ''VALVE-SSSS'' (JStr ''Campaign 1'') (genId envA)) \<in> set (outbox s1) \<and>
      (2, RoomJoined ''VALVE-SSSS'' (JStr ''Campaign 1'') (genId envB)) \<in> set (outbox s2) \<and>
      (\<exists>en. map_of (playersSnapshot ''VALVE-SSSS'' s2) (genId envA) = Some en \<and>
             snap_id en = genId envA \<and> snap_name en = JStr ''Bo'') \<and>
      (\<exists>en. map_of (playersSnapshot ''VALVE-SSSS'' s2) (genId envB) = Some en \<and>
             snap_id en = genId envB \<and> snap_name en = JStr ''Bo''))"
proof -
  let ?s = "onConnection 2 (onConnection 1 created)"
  have m1: "fld joinMsg ''type'' = JStr ''join_room''" "fld joinMsg ''roomCode'' = JStr '' valve-ssss ''"
    "'' valve-ssss '' \<noteq> []" "toUpperCase (trim '' valve-ssss '') = Some ''VALVE-SSSS''"
    and m2: "fld joinCanonicalMsg ''type'' = JStr ''join_room''" "fld joinCanonicalMsg ''roomCode'' = JStr ''VALVE-SSSS''"
    "''VALVE-SSSS'' \<noteq> []" "toUpperCase (trim ''VALVE-SSSS'') = Some ''VALVE-SSSS''"
    and n: "fld joinMsg ''playerName'' = JStr ''Bo''" "fld joinCanonicalMsg ''playerName'' = JStr ''Bo''"
    "truthy (JStr ''Bo'')"
    by (simp_all add: joinMsg_def joinCanonicalMsg_def normalize_ssss upper_ssss)
  have k: "map_of (db_rooms ?s) ''VALVE-SSSS'' = Some (roomA [])"
    and o: "isOpen ?s 1" "isOpen ?s 2"
    and sn: "sessionName (roomA []) = JStr ''Campaign 1''"
    by (simp_all add: created_eq onConnection_def isOpen_def roomA_def)
  have ne: "genId envA \<noteq> genId envB"
    by simp
  from two_joins_same_name[OF m1 m2 n k, of envA 1 envB 2] o ne
  have "\<exists>s1 s2. handleMsg envA 1 joinMsg ?s = Inr s1 \<and>
      handleMsg envB 2 joinCanonicalMsg s1 = Inr s2 \<and>
      playerId (conns s1 1) = Some (genId envA) \<and>
      playerId (conns s2 2) = Some (genId envB) \<and>
      (1, RoomJoined ''VALVE-SSSS'' (sessionName (roomA [])) (genId envA)) \<in> set (outbox s1) \<and>
      (2, RoomJoined ''VALVE-SSSS'' (sessionName (roomA [])) (genId envB)) \<in> set (outbox s2) \<and>
      (\<exists>en. map_of (playersSnapshot ''VALVE-SSSS'' s2) (genId envA) = Some en \<and>
             snap_id en = genId envA \<and> snap_name en = JStr ''Bo'') \<and>
      (\<exists>en. map_of (playersSnapshot ''VALVE-SSSS'' s2) (genId envB) = Some en \<and>
             snap_id en = genId envB \<and> snap_name en = JStr ''Bo'')"
    by blast
  then show ?thesis
    unfolding sn using m1(1,2) m2(1,2) n(1,2) k ne by blast
qed

subsection \<open>C6: request_ficha\<close>

text \<open>
  C6, as stated: every \<^verbatim>\<open>request_ficha\<close> from a socket in master-active state either
  has \<^verbatim>\<open>send_ficha\<close> sent to the participant's socket or has the master receive a
  \<^verbatim>\<open>ficha_update\<close> at once. It fails when the room is no longer in the live registry:
  the handler returns before doing either. Here the sweeper has removed the room while
  the master's socket, and Bo's, stayed open; the master's request is answered by
  nothing.
\<close>

theorem request_ficha_unanswered_counterexample:
  "fld requestMsg ''type'' = JStr ''request_ficha'' \<and>
   fld requestMsg ''playerId'' = JStr boId \<and>
   role (conns swept 0) = JStr ''master'' \<and>
   roomCode (conns swept 0) = Some ''VALVE-SSSS'' \<and>
   isOpen swept 0 \<and> isOpen swept 1 \<and>
   liveRooms swept ''VALVE-SSSS'' = None \<and>
   handleMsg envB 0 requestMsg swept = Inr swept"
  by (simp add: swept_eq requestMsg_def boId_def handleMsg_def request_ficha_def boundCode_def
      openConn_def isOpen_def)

text \<open>
  C6, amended: for every \<^verbatim>\<open>request_ficha\<close> message from a socket whose role is master
  and that is bound to a room, naming a participant id, which is a string: if the room
  is not in the live registry the message has no effect. If it is, and the participant
  named has a socket attached that is open, exactly one message is sent, \<^verbatim>\<open>send_ficha\<close>
  to that socket; otherwise, the master's socket being open, exactly one message is
  sent, a \<^verbatim>\<open>ficha_update\<close> to the master carrying the id and the payload the durable
  store holds for that participant, or the empty object when the store holds none or
  holds a falsy one. Nothing else changes.
\<close>

theorem request_ficha_effect:
  assumes "fld msg ''type'' = JStr ''request_ficha''"
    and "role (conns s sock) = JStr ''master''"
    and "boundCode (conns s sock) = Some code"
    and "fld msg ''playerId'' = JStr pid"
  shows "(liveRooms s code = None \<longrightarrow> handleMsg e sock msg s = Inr s)
       \<and> (\<forall>room. liveRooms s code = Some room \<longrightarrow>
            (\<forall>p c. map_of (live_players room) pid = Some p \<and> ws p = Some c \<and> isOpen s c \<longrightarrow>
               handleMsg e sock msg s = Inr (s\<lparr>outbox := outbox s @ [(c, SendFicha)]\<rparr>)) \<and>
            (\<not> (\<exists>p c. map_of (live_players room) pid = Some p \<and> ws p = Some c \<and> isOpen s c)
               \<and> isOpen s sock \<longrightarrow>
               handleMsg e sock msg s =
                 Inr (s\<lparr>outbox := outbox s @
                   [(sock, FichaUpdate (JStr pid)
                      (case map_of (db_rooms s) code of
                         None \<Rightarrow> JObj []
                       | Some r \<Rightarrow>
                           (case map_of (playersOrEmpty r) pid of
                              None \<Rightarrow> JObj []
                            | Some p \<Rightarrow> if truthy (fichaData p) then fichaData p else JObj [])))]\<rparr>)))"
proof (intro conjI allI impI)
  assume "liveRooms s code = None"
  then show "handleMsg e sock msg s = Inr s"
    using assms by (simp add: handleMsg_request_ficha request_ficha_not_live)
next
  have key: "propKey (fld msg ''playerId'') = Inr pid"
    by (simp add: assms(4))
  fix room p c
  assume room: "liveRooms s code = Some room"
    and pc: "map_of (live_players room) pid = Some p \<and> ws p = Some c \<and> isOpen s c"
  then have "openSocketOf s room pid = Some c"
    by (simp add: openSocketOf_def)
  then show "handleMsg e sock msg s = Inr (s\<lparr>outbox := outbox s @ [(c, SendFicha)]\<rparr>)"
    using pc by (simp add: handleMsg_request_ficha[OF assms(1)] request_ficha_live[OF assms(2,3) room key] send_def)
next
  have key: "propKey (fld msg ''playerId'') = Inr pid"
    by (simp add: assms(4))
  fix room
  assume room: "liveRooms s code = Some room"
    and n: "\<not> (\<exists>p c. map_of (live_players room) pid = Some p \<and> ws p = Some c \<and> isOpen s c)
               \<and> isOpen s sock"
  then have "openSocketOf s room pid = None"
    by (simp add: openSocketOf_None)
  then show "handleMsg e sock msg s =
                 Inr (s\<lparr>outbox := outbox s @
                   [(sock, FichaUpdate (JStr pid)
                      (case map_of (db_rooms s) code of
                         None \<Rightarrow> JObj []
                       | Some r \<Rightarrow>
                           (case map_of (playersOrEmpty r) pid of
                              None \<Rightarrow> JObj []
                            | Some p \<Rightarrow> if truthy (fichaData p) then fichaData p else JObj [])))]\<rparr>)"
    using n by (simp add: handleMsg_request_ficha[OF assms(1)] request_ficha_live[OF assms(2,3) room key] send_def
        cachedFicha_def orEmptyObject_def assms(4) split: option.splits)
qed

text \<open>
  The witness: with Bo connected the master's request goes to Bo's socket; once Bo's
  socket has closed it is answered with the sheet the durable store holds; after the
  sweep it is ignored.
\<close>

theorem request_ficha_effect_witness:
  "fld requestMsg ''type'' = JStr ''request_ficha'' \<and> fld requestMsg ''playerId'' = JStr boId \<and>
   role (conns joined 0) = JStr ''master'' \<and> boundCode (conns joined 0) = Some ''VALVE-SSSS'' \<and>
   handleMsg envA 0 requestMsg joined = Inr (joined\<lparr>outbox := outbox joined @ [(1, SendFicha)]\<rparr>) \<and>
   role (conns left 0) = JStr ''master'' \<and> boundCode (conns left 0) = Some ''VALVE-SSSS'' \<and>
   handleMsg envB 0 requestMsg left =
     Inr (left\<lparr>outbox := outbox left @ [(0, FichaUpdate (JStr boId) sheet)]\<rparr>) \<and>
   role (conns swept 0) = JStr ''master'' \<and> boundCode (conns swept 0) = Some ''VALVE-SSSS'' \<and>
   handleMsg envB 0 requestMsg swept = Inr swept"
proof -
  have t: "fld requestMsg ''type'' = JStr ''request_ficha''"
    and k: "fld requestMsg ''playerId'' = JStr boId"
    by (simp_all add: requestMsg_def boId_def)
  have j: "role (conns joined 0) = JStr ''master''" "boundCode (conns joined 0) = Some ''VALVE-SSSS''"
    and jl: "liveRooms joined ''VALVE-SSSS'' = Some \<lparr>masterWs = Some 0,
        live_players = [(boId, \<lparr>ws = Some 1, live_name = JStr ''Bo'', live_fichaData = JObj []\<rparr>)]\<rparr>"
    and jo: "isOpen joined 1"
    by (simp_all add: joined_eq openConn_def boundCode_def isOpen_def boId_def)
  have 1: "handleMsg envA 0 requestMsg joined = Inr (joined\<lparr>outbox := outbox joined @ [(1, SendFicha)]\<rparr>)"
  proof -
    have "map_of (live_players \<lparr>masterWs = Some 0,
        live_players = [(boId, \<lparr>ws = Some 1, live_name = JStr ''Bo'', live_fichaData = JObj []\<rparr>)]\<rparr>)
          boId = Some \<lparr>ws = Some 1, live_name = JStr ''Bo'', live_fichaData = JObj []\<rparr> \<and>
        ws \<lparr>ws = Some 1, live_name = JStr ''Bo'', live_fichaData = JObj []\<rparr> = Some 1 \<and> isOpen joined 1"
      using jo by simp
    then show ?thesis
      using request_ficha_effect[OF t j k, of envA] jl by blast
  qed
  have m: "role (conns left 0) = JStr ''master''" "boundCode (conns left 0) = Some ''VALVE-SSSS''"
    and ml: "liveRooms left ''VALVE-SSSS'' = Some \<lparr>masterWs = Some 0,
        live_players = [(boId, \<lparr>ws = None, live_name = JStr ''Bo'', live_fichaData = sheet\<rparr>)]\<rparr>"
    and mo: "isOpen left 0"
    and md: "map_of (db_rooms left) ''VALVE-SSSS'' = Some (roomA [(boId, \<lparr>name = JStr ''Bo'', fichaData = sheet\<rparr>)])"
    by (simp_all add: left_eq openConn_def boundCode_def isOpen_def boId_def)
  have 2: "handleMsg envB 0 requestMsg left =
     Inr (left\<lparr>outbox := outbox left @ [(0, FichaUpdate (JStr boId) sheet)]\<rparr>)"
  proof -
    have "\<not> (\<exists>p c. map_of (live_players \<lparr>masterWs = Some 0,
               live_players = [(boId, \<lparr>ws = None, live_name = JStr ''Bo'', live_fichaData = sheet\<rparr>)]\<rparr>)
             boId = Some p \<and> ws p = Some c \<and> isOpen left c) \<and> isOpen left 0"
      using mo by simp
    with request_ficha_effect[OF t m k, of envB] ml
    have "handleMsg envB 0 requestMsg left =
                 Inr (left\<lparr>outbox := outbox left @
                   [(0, FichaUpdate (JStr boId)
                      (case map_of (db_rooms left) ''VALVE-SSSS'' of
                         None \<Rightarrow> JObj []
                       | Some r \<Rightarrow>
                           (case map_of (playersOrEmpty r) boId of
                              None \<Rightarrow> JObj []
                            | Some p \<Rightarrow> if truthy (fichaData p) then fichaData p else JObj [])))]\<rparr>)"
      by blast
    then show ?thesis
      by (simp add: md playersOrEmpty_def roomA_def sheet_def)
  qed
  have w: "role (conns swept 0) = JStr ''master''" "boundCode (conns swept 0) = Some ''VALVE-SSSS''"
    and wl: "liveRooms swept ''VALVE-SSSS'' = None"
    by (simp_all add: swept_eq openConn_def boundCode_def)
  have 3: "handleMsg envB 0 requestMsg swept = Inr swept"
    using request_ficha_effect[OF t w k, of envB] wl by blast
  show ?thesis using t k j m w 1 2 3 by blast
qed

subsection \<open>C7: the retention sweeper\<close>

text \<open>
  C7. The time to live is 48 hours in milliseconds. For every room of the durable store
  (an object, so its keys are distinct, which every handler and the sweeper preserve):
  if its age, the clock minus \<^verbatim>\<open>createdAt\<close>,
  exceeds 48 hours, then after one run of the sweeper it is absent from the durable
  store and from the live registry, and a \<^verbatim>\<open>join_room\<close> that follows with its code (a
  player name given, the sender's socket open) is answered with \<^verbatim>\<open>room_error\<close> and
  changes nothing else; if its age is 48 hours or less, its entries in both stores are
  as before.
\<close>

theorem retention_sweep:
  assumes "distinct (map fst (db_rooms s))"
    and "map_of (db_rooms s) code = Some room"
  shows "ttl = 48 * 3600 * 1000
       \<and> (ttl < int (now e) - createdAt room \<longrightarrow>
            map_of (db_rooms (sweep e s)) code = None \<and> liveRooms (sweep e s) code = None \<and>
            (\<forall>e' sock msg rc.
               fld msg ''type'' = JStr ''join_room'' \<and> truthy (fld msg ''playerName'') \<and>
               fld msg ''roomCode'' = JStr rc \<and> rc \<noteq> [] \<and> toUpperCase (trim rc) = Some code \<and>
               isOpen (sweep e s) sock \<longrightarrow>
               handleMsg e' sock msg (sweep e s) =
                 Inr ((sweep e s)\<lparr>outbox := outbox (sweep e s) @ [(sock, RoomError room_not_found)]\<rparr>)))
       \<and> (int (now e) - createdAt room \<le> ttl \<longrightarrow>
            map_of (db_rooms (sweep e s)) code = Some room \<and>
            liveRooms (sweep e s) code = liveRooms s code)"
proof (intro conjI allI impI)
  show "ttl = 48 * 3600 * 1000" by (simp add: ttl_def)
next
  assume old: "ttl < int (now e) - createdAt room"
  then have ex: "\<exists>room'. (code, room') \<in> set (db_rooms s) \<and> createdAt room' < int (now e) - ttl"
    using sweep_entry[OF assms, of e] by blast
  show gone: "map_of (db_rooms (sweep e s)) code = None"
    unfolding sweep_lookup by (simp only: ex if_True)
  show "liveRooms (sweep e s) code = None"
    unfolding sweep_lookup by (simp only: ex if_True)
  fix e' sock msg rc
  assume j: "fld msg ''type'' = JStr ''join_room'' \<and> truthy (fld msg ''playerName'') \<and>
               fld msg ''roomCode'' = JStr rc \<and> rc \<noteq> [] \<and> toUpperCase (trim rc) = Some code \<and>
               isOpen (sweep e s) sock"
  then have "Option.bind (toUpperCase (trim rc)) (map_of (db_rooms (sweep e s))) = None"
    using gone by simp
  then show "handleMsg e' sock msg (sweep e s) =
                 Inr ((sweep e s)\<lparr>outbox := outbox (sweep e s) @ [(sock, RoomError room_not_found)]\<rparr>)"
    using j by (simp add: handleMsg_join join_room_no_entry send_def)
next
  assume young: "int (now e) - createdAt room \<le> ttl"
  then have nex: "\<not> (\<exists>room'. (code, room') \<in> set (db_rooms s) \<and> createdAt room' < int (now e) - ttl)"
    unfolding sweep_entry[OF assms, of e] by linarith
  show "map_of (db_rooms (sweep e s)) code = Some room"
    unfolding sweep_lookup by (simp only: nex if_False assms(2))
  show "liveRooms (sweep e s) code = liveRooms s code"
    unfolding sweep_lookup by (simp only: nex if_False)
qed

text \<open>
  The witness: 49 hours after its creation the room VALVE-SSSS is swept and joining it
  fails; swept at the moment of its creation it stays.
\<close>

theorem retention_sweep_witness:
  "distinct (map fst (db_rooms joined)) \<and>
   map_of (db_rooms joined) ''VALVE-SSSS'' = Some (roomA [(boId, \<lparr>name = JStr ''Bo'', fichaData = JObj []\<rparr>)]) \<and>
   ttl < int (now envB) - createdAt (roomA [(boId, \<lparr>name = JStr ''Bo'', fichaData = JObj []\<rparr>)]) \<and>
   map_of (db_rooms swept) ''VALVE-SSSS'' = None \<and> liveRooms swept ''VALVE-SSSS'' = None \<and>
   handleMsg envB 1 joinMsg swept = Inr (swept\<lparr>outbox := outbox swept @ [(1, RoomError room_not_found)]\<rparr>) \<and>
   int (now envA) - createdAt (roomA [(boId, \<lparr>name = JStr ''Bo'', fichaData = JObj []\<rparr>)]) \<le> ttl \<and>
   map_of (db_rooms (sweep envA joined)) ''VALVE-SSSS'' =
     Some (roomA [(boId, \<lparr>name = JStr ''Bo'', fichaData = JObj []\<rparr>)]) \<and>
   liveRooms (sweep envA joined) ''VALVE-SSSS'' = liveRooms joined ''VALVE-SSSS''"
proof -
  let ?room = "roomA [(boId, \<lparr>name = JStr ''Bo'', fichaData = JObj []\<rparr>)]"
  have d: "distinct (map fst (db_rooms joined))"
    and m: "map_of (db_rooms joined) ''VALVE-SSSS'' = Some ?room"
    by (simp_all add: joined_eq boId_def)
  have old: "ttl < int (now envB) - createdAt ?room"
    and young: "int (now envA) - createdAt ?room \<le> ttl"
    by (simp_all add: ttl_def roomA_def)
  have j: "fld joinMsg ''type'' = JStr ''join_room'' \<and> truthy (fld joinMsg ''playerName'') \<and>
           fld joinMsg ''roomCode'' = JStr '' valve-ssss '' \<and> '' valve-ssss '' \<noteq> [] \<and>
           toUpperCase (trim '' valve-ssss '') = Some ''VALVE-SSSS'' \<and> isOpen (sweep envB joined) 1"
    by (simp add: joinMsg_def normalize_ssss swept_def[symmetric] swept_eq isOpen_def openConn_def)
  from retention_sweep[OF d m, of envB] old
  have 1: "map_of (db_rooms (sweep envB joined)) ''VALVE-SSSS'' = None \<and> liveRooms (sweep envB joined) ''VALVE-SSSS'' = None"
    and 2: "\<forall>e' sock msg rc.
               fld msg ''type'' = JStr ''join_room'' \<and> truthy (fld msg ''playerName'') \<and>
               fld msg ''roomCode'' = JStr rc \<and> rc \<noteq> [] \<and> toUpperCase (trim rc) = Some ''VALVE-SSSS'' \<and>
               isOpen (sweep envB joined) sock \<longrightarrow>
               handleMsg e' sock msg (sweep envB joined) =
                 Inr ((sweep envB joined)\<lparr>outbox := outbox (sweep envB joined) @ [(sock, RoomError room_not_found)]\<rparr>)"
    by blast+
  from 2 j have 3: "handleMsg envB 1 joinMsg (sweep envB joined) =
                 Inr ((sweep envB joined)\<lparr>outbox := outbox (sweep envB joined) @ [(1, RoomError room_not_found)]\<rparr>)"
    by blast
  from retention_sweep[OF d m, of envA] young
  have 4: "map_of (db_rooms (sweep envA joined)) ''VALVE-SSSS'' = Some ?room \<and>
           liveRooms (sweep envA joined) ''VALVE-SSSS'' = liveRooms joined ''VALVE-SSSS''"
    by blast
  show ?thesis using d m old young 1 3 4 unfolding swept_def by blast
qed

subsection \<open>C8: create_room with a missing field\<close>

text \<open>
  C8. A \<^verbatim>\<open>create_room\<close> message whose \<^verbatim>\<open>masterName\<close> or \<^verbatim>\<open>sessionName\<close> is missing or
  empty (more generally, falsy) has no effect: the state after the message is the state
  before it, so both stores and the role binding of the socket are unchanged and nothing
  is sent.
\<close>

theorem create_room_missing_field_ignored:
  assumes "fld msg ''type'' = JStr ''create_room''"
    and "\<not> truthy (fld msg ''masterName'') \<or> \<not> truthy (fld msg ''sessionName'')"
  shows "handleMsg e sock msg s = Inr s"
  using assms by (auto simp: handleMsg_create create_room_def)

theorem create_room_missing_field_ignored_witness:
  "fld createNoSessionMsg ''type'' = JStr ''create_room'' \<and>
   \<not> truthy (fld createNoSessionMsg ''sessionName'') \<and>
   handleMsg envA 0 createNoSessionMsg (onConnection 0 (start [])) = Inr (onConnection 0 (start []))"
proof -
  have t: "fld createNoSessionMsg ''type'' = JStr ''create_room''"
    by (simp add: createNoSessionMsg_def)
  have f: "\<not> truthy (fld createNoSessionMsg ''masterName'') \<or> \<not> truthy (fld createNoSessionMsg ''sessionName'')"
    by (simp add: createNoSessionMsg_def)
  show ?thesis
    using create_room_missing_field_ignored[OF t f, of envA 0 "onConnection 0 (start [])"] t
    by (simp add: createNoSessionMsg_def)
qed

subsection \<open>C9: room codes\<close>

text \<open>
  C9. Provided every random draw lies in [0, 1), as \<^verbatim>\<open>Math.random()\<close> promises: every
  code \<^verbatim>\<open>genCode\<close> returns is the prefix VALVE- followed by exactly 4 characters of the
  alphabet, which has none of 0, O, 1, I. The loop of \<^verbatim>\<open>create_room\<close> makes between 1 and
  20 attempts and returns the code of the last one; every earlier attempt collided with
  a stored code; when it stops before the 20th attempt the code is free, and the 20th
  is taken as it is. The room is then stored under that code in both stores, replacing
  whatever was there.
\<close>

theorem room_code_format_and_bounded_retry:
  assumes "\<forall>k. 0 \<le> random e k \<and> random e k < 1"
    and "fld msg ''type'' = JStr ''create_room''"
    and "truthy (fld msg ''masterName'')" and "truthy (fld msg ''sessionName'')"
  shows "(\<forall>k. \<exists>cs. genCode (random e) k = ''VALVE-'' @ cs \<and> length cs = 4 \<and>
                   set cs \<subseteq> set chars - {CHR ''0'', CHR ''O'', CHR ''1'', CHR ''I''})
       \<and> (\<exists>code n s'. pickCode (db_rooms s) (random e) 0 = (code, n) \<and> 1 \<le> n \<and> n \<le> 20 \<and>
             code = genCode (random e) (4 * (n - 1)) \<and>
             (\<forall>j<n - 1. map_of (db_rooms s) (genCode (random e) (4 * j)) \<noteq> None) \<and>
             (n < 20 \<longrightarrow> map_of (db_rooms s) code = None) \<and>
             handleMsg e sock msg s = Inr s' \<and>
             map_of (db_rooms s') code =
               Some \<lparr>masterName = fld msg ''masterName'', sessionName = fld msg ''sessionName'',
                     createdAt = int (now e), players = Some []\<rparr> \<and>
             liveRooms s' code = Some \<lparr>masterWs = Some sock, live_players = []\<rparr>)"
proof (intro conjI allI)
  fix k
  obtain cs where "genCode (random e) k = ''VALVE-'' @ cs" "length cs = 4" "set cs \<subseteq> set chars"
    using genCode_format[OF assms(1)] by blast
  then show "\<exists>cs. genCode (random e) k = ''VALVE-'' @ cs \<and> length cs = 4 \<and>
                   set cs \<subseteq> set chars - {CHR ''0'', CHR ''O'', CHR ''1'', CHR ''I''}"
    using chars_unambiguous by blast
next
  obtain code n where p: "pickCode (db_rooms s) (random e) 0 = (code, n)"
    by (cases "pickCode (db_rooms s) (random e) 0")
  have "(0::nat) < 20" by simp
  note spec = pickCode_spec[OF this p]
  have c: "fst (pickCode (db_rooms s) (random e) 0) = code" using p by simp
  show "\<exists>code n s'. pickCode (db_rooms s) (random e) 0 = (code, n) \<and> 1 \<le> n \<and> n \<le> 20 \<and>
             code = genCode (random e) (4 * (n - 1)) \<and>
             (\<forall>j<n - 1. map_of (db_rooms s) (genCode (random e) (4 * j)) \<noteq> None) \<and>
             (n < 20 \<longrightarrow> map_of (db_rooms s) code = None) \<and>
             handleMsg e sock msg s = Inr s' \<and>
             map_of (db_rooms s') code =
               Some \<lparr>masterName = fld msg ''masterName'', sessionName = fld msg ''sessionName'',
                     createdAt = int (now e), players = Some []\<rparr> \<and>
             liveRooms s' code = Some \<lparr>masterWs = Some sock, live_players = []\<rparr>"
    apply (rule exI[of _ code], rule exI[of _ n], rule exI[of _ "create_room e sock msg s"])
    using spec p create_room_stores[OF assms(3,4), of e sock s] c handleMsg_create[OF assms(2), of e sock s]
    by (metis Suc_leI One_nat_def le0)
qed

text \<open>
  The witness: the room VALVE-SSSS exists and every draw gives VALVE-SSSS again, so all
  20 attempts collide and the existing room is replaced.
\<close>

theorem room_code_format_and_bounded_retry_witness:
  "(\<forall>k. 0 \<le> random envB k \<and> random envB k < 1) \<and>
   pickCode (db_rooms created) (random envB) 0 = (''VALVE-SSSS'', 20) \<and>
   map_of (db_rooms created) ''VALVE-SSSS'' \<noteq> None \<and>
   (\<exists>s'. handleMsg envB 0 createMsg created = Inr s' \<and>
      map_of (db_rooms s') ''VALVE-SSSS'' =
        Some \<lparr>masterName = JStr ''Ana'', sessionName = JStr ''Campaign 1'',
              createdAt = 1700176400000, players = Some []\<rparr>)"
proof -
  have r: "\<forall>k. 0 \<le> random envB k \<and> random envB k < 1"
    by simp
  have p: "pickCode (db_rooms created) (random envB) 0 = (''VALVE-SSSS'', 20)"
    by (simp add: created_eq pick_crowded)
  show ?thesis
    using room_code_format_and_bounded_retry[OF r, of createMsg created 0] p r
    by (auto simp: createMsg_def created_eq)
qed

subsection \<open>C10: normalization of the room code\<close>

text \<open>
  C10. \<^verbatim>\<open>join_room\<close> looks the room up under the trimmed, upper-cased code and uses
  that code from then on: the socket is bound to it, the participant is entered under
  it in both stores, no other room of either store changes, and \<^verbatim>\<open>room_joined\<close>
  carries it. White space around the code does not change its normal form, and two
  \<^verbatim>\<open>join_room\<close> messages with the same player name whose codes have the same normal
  form, that is, differ in letter case and surrounding white space only, have the same
  effect. \<^verbatim>\<open>reconnect\<close> looks the room up under the upper-cased code, not trimmed: it
  has no effect when that has no entry, and binds the socket to it when it has one.
\<close>

theorem room_code_normalization:
  assumes "fld msg ''type'' = JStr ''join_room''"
    and "fld msg ''roomCode'' = JStr rc" and "rc \<noteq> []"
    and "truthy (fld msg ''playerName'')"
    and "toUpperCase (trim rc) = Some code"
    and "map_of (db_rooms s) code = Some r"
  shows "(\<exists>s'. handleMsg e sock msg s = Inr s' \<and>
            roomCode (conns s' sock) = Some code \<and>
            (\<exists>room'. liveRooms s' code = Some room' \<and>
               map_of (live_players room') (genId e) =
                 Some \<lparr>ws = Some sock, live_name = fld msg ''playerName'', live_fichaData = JObj []\<rparr>) \<and>
            (\<exists>r'. map_of (db_rooms s') code = Some r' \<and>
               map_of (playersOrEmpty r') (genId e) =
                 Some \<lparr>name = fld msg ''playerName'', fichaData = JObj []\<rparr>) \<and>
            (\<forall>c. c \<noteq> code \<longrightarrow>
               map_of (db_rooms s') c = map_of (db_rooms s) c \<and> liveRooms s' c = liveRooms s c) \<and>
            (isOpen s sock \<longrightarrow>
               (sock, RoomJoined code (sessionName r) (genId e)) \<in> set (outbox s')))
       \<and> (\<forall>l t. list_all isWhiteSpace l \<and> list_all isWhiteSpace t \<longrightarrow>
              toUpperCase (trim (l @ rc @ t)) = Some code)
       \<and> (\<forall>msg' rc'. fld msg' ''type'' = JStr ''join_room'' \<and>
              fld msg' ''playerName'' = fld msg ''playerName'' \<and>
              fld msg' ''roomCode'' = JStr rc' \<and> rc' \<noteq> [] \<and>
              toUpperCase (trim rc') = Some code \<longrightarrow>
              handleMsg e sock msg' s = handleMsg e sock msg s)
       \<and> (\<forall>rmsg rrc. fld rmsg ''type'' = JStr ''reconnect'' \<and> fld rmsg ''roomCode'' = JStr rrc \<longrightarrow>
              (Option.bind (toUpperCase rrc) (map_of (db_rooms s)) = None \<longrightarrow>
                 handleMsg e sock rmsg s = Inr s) \<and>
              (\<forall>c. rrc \<noteq> [] \<and> toUpperCase rrc = Some c \<and> map_of (db_rooms s) c \<noteq> None \<longrightarrow>
                 (\<exists>s'. handleMsg e sock rmsg s = Inr s' \<and>
                    roomCode (conns s' sock) = Some c \<and>
                    liveRooms s' c \<noteq> None)))"
proof (intro conjI allI impI)
  let ?s' = "join_known e sock (fld msg ''playerName'') code r s"
  have h: "handleMsg e sock msg s = Inr ?s'"
    using assms by (rule handleMsg_join_known)
  show "\<exists>s'. handleMsg e sock msg s = Inr s' \<and>
            roomCode (conns s' sock) = Some code \<and>
            (\<exists>room'. liveRooms s' code = Some room' \<and>
               map_of (live_players room') (genId e) =
                 Some \<lparr>ws = Some sock, live_name = fld msg ''playerName'', live_fichaData = JObj []\<rparr>) \<and>
            (\<exists>r'. map_of (db_rooms s') code = Some r' \<and>
               map_of (playersOrEmpty r') (genId e) =
                 Some \<lparr>name = fld msg ''playerName'', fichaData = JObj []\<rparr>) \<and>
            (\<forall>c. c \<noteq> code \<longrightarrow>
               map_of (db_rooms s') c = map_of (db_rooms s) c \<and> liveRooms s' c = liveRooms s c) \<and>
            (isOpen s sock \<longrightarrow>
               (sock, RoomJoined code (sessionName r) (genId e)) \<in> set (outbox s'))"
  proof (intro exI[of _ ?s'] conjI allI impI)
    show "handleMsg e sock msg s = Inr ?s'" by (rule h)
    show "roomCode (conns ?s' sock) = Some code" by (simp add: join_known_conns)
    show "\<exists>room'. liveRooms ?s' code = Some room' \<and>
               map_of (live_players room') (genId e) =
                 Some \<lparr>ws = Some sock, live_name = fld msg ''playerName'', live_fichaData = JObj []\<rparr>"
      by (rule join_known_live_player)
    show "\<exists>r'. map_of (db_rooms ?s') code = Some r' \<and>
               map_of (playersOrEmpty r') (genId e) =
                 Some \<lparr>name = fld msg ''playerName'', fichaData = JObj []\<rparr>"
      using assms(6) by (rule join_known_persists)
  next
    fix c assume "c \<noteq> code"
    then show "map_of (db_rooms ?s') c = map_of (db_rooms s) c" "liveRooms ?s' c = liveRooms s c"
      by (simp_all add: join_known_other_rooms)
  next
    assume "isOpen s sock"
    then show "(sock, RoomJoined code (sessionName r) (genId e)) \<in> set (outbox ?s')"
      by (rule join_known_room_joined)
  qed
next
  fix l t
  assume "list_all isWhiteSpace l \<and> list_all isWhiteSpace t"
  then have "trim (l @ rc @ t) = trim rc"
    by (intro trim_surrounding) (simp_all add: list_all_iff)
  then show "toUpperCase (trim (l @ rc @ t)) = Some code"
    using assms(5) by simp
next
  fix msg' rc'
  assume a: "fld msg' ''type'' = JStr ''join_room'' \<and>
              fld msg' ''playerName'' = fld msg ''playerName'' \<and>
              fld msg' ''roomCode'' = JStr rc' \<and> rc' \<noteq> [] \<and>
              toUpperCase (trim rc') = Some code"
  then have "join_room e sock msg' s = join_room e sock msg s"
    using assms(2,3,5) join_room_depends[where msg=msg' and msg'=msg and rc=rc' and rc'=rc and e=e and sock=sock and s=s]
    by simp
  then show "handleMsg e sock msg' s = handleMsg e sock msg s"
    using a assms(1) by (simp add: handleMsg_join)
next
  fix rmsg rrc
  assume a: "fld rmsg ''type'' = JStr ''reconnect'' \<and> fld rmsg ''roomCode'' = JStr rrc"
  { assume "Option.bind (toUpperCase rrc) (map_of (db_rooms s)) = None"
    then show "handleMsg e sock rmsg s = Inr s"
      using a by (cases "toUpperCase rrc") (simp_all add: handleMsg_reconnect reconnect_str) }
  { fix c
    assume b: "rrc \<noteq> [] \<and> toUpperCase rrc = Some c \<and> map_of (db_rooms s) c \<noteq> None"
    then obtain r2 where r2: "map_of (db_rooms s) c = Some r2" by blast
    have "handleMsg e sock rmsg s = Inr (reconnect_known e sock rmsg c r2 s)"
      using a b r2 by (simp add: handleMsg_reconnect reconnect_str)
    moreover have "roomCode (conns (reconnect_known e sock rmsg c r2 s) sock) = Some c"
      by (simp add: reconnect_known_conns)
    moreover have "liveRooms (reconnect_known e sock rmsg c r2 s) c \<noteq> None"
      by (simp add: reconnect_known_live)
    ultimately show "\<exists>s'. handleMsg e sock rmsg s = Inr s' \<and>
                    roomCode (conns s' sock) = Some c \<and>
                    liveRooms s' c \<noteq> None" by blast }
qed

text \<open>
  The witness: the code \<^verbatim>\<open>" valve-ssss "\<close> joins the room VALVE-SSSS, as the code
  \<^verbatim>\<open>"VALVE-SSSS"\<close> does, and as does the same code between a no-break space and a tab;
  a reconnect with \<^verbatim>\<open>" valve-ssss "\<close> is ignored, one with \<^verbatim>\<open>"valve-ssss"\<close> is not, nor
  is one with the code spelt with a sharp s.
\<close>

theorem room_code_normalization_witness:
  "fld joinMsg ''type'' = JStr ''join_room'' \<and>
   fld joinMsg ''roomCode'' = JStr '' valve-ssss '' \<and>
   truthy (fld joinMsg ''playerName'') \<and>
   toUpperCase (trim '' valve-ssss '') = Some ''VALVE-SSSS'' \<and>
   map_of (db_rooms (onConnection 1 created)) ''VALVE-SSSS'' = Some (roomA []) \<and>
   (\<exists>s'. handleMsg envA 1 joinMsg (onConnection 1 created) = Inr s' \<and>
      roomCode (conns s' 1) = Some ''VALVE-SSSS'') \<and>
   handleMsg envA 1 joinCanonicalMsg (onConnection 1 created)
     = handleMsg envA 1 joinMsg (onConnection 1 created) \<and>
   fld joinPaddedMsg ''roomCode'' = JStr ([CHR 0xA0] @ '' valve-ssss '' @ [CHR 0x09]) \<and>
   handleMsg envA 1 joinPaddedMsg (onConnection 1 created)
     = handleMsg envA 1 joinMsg (onConnection 1 created) \<and>
   handleMsg envA 1 reconnectSpacedMsg (onConnection 1 created) = Inr (onConnection 1 created) \<and>
   (\<exists>s'. handleMsg envA 1 reconnectPlayerMsg (onConnection 1 created) = Inr s' \<and>
      roomCode (conns s' 1) = Some ''VALVE-SSSS'') \<and>
   fld reconnectSharpMsg ''roomCode'' = JStr (''valve-'' @ [CHR 0xDF] @ ''ss'') \<and>
   (\<exists>s'. handleMsg envA 1 reconnectSharpMsg (onConnection 1 created) = Inr s' \<and>
      roomCode (conns s' 1) = Some ''VALVE-SSSS'')"
proof -
  have jt: "fld joinMsg ''type'' = JStr ''join_room''"
    and jc: "fld joinMsg ''roomCode'' = JStr '' valve-ssss ''"
    and jn: "truthy (fld joinMsg ''playerName'')"
    by (simp_all add: joinMsg_def)
  have ne: "'' valve-ssss '' \<noteq> []" by simp
  have jk: "map_of (db_rooms (onConnection 1 created)) ''VALVE-SSSS'' = Some (roomA [])"
    by (simp add: created_eq onConnection_def)
  note th = room_code_normalization[OF jt jc ne jn normalize_ssss jk, of envA 1]
  have 1: "\<exists>s'. handleMsg envA 1 joinMsg (onConnection 1 created) = Inr s' \<and>
      roomCode (conns s' 1) = Some ''VALVE-SSSS''"
    using th by blast
  have "fld joinCanonicalMsg ''type'' = JStr ''join_room'' \<and>
        fld joinCanonicalMsg ''playerName'' = fld joinMsg ''playerName'' \<and>
        fld joinCanonicalMsg ''roomCode'' = JStr ''VALVE-SSSS'' \<and> ''VALVE-SSSS'' \<noteq> [] \<and>
        toUpperCase (trim ''VALVE-SSSS'') = Some ''VALVE-SSSS''"
    by (simp add: joinCanonicalMsg_def joinMsg_def upper_ssss)
  with th have 2: "handleMsg envA 1 joinCanonicalMsg (onConnection 1 created)
     = handleMsg envA 1 joinMsg (onConnection 1 created)"
    by blast
  have pc: "fld joinPaddedMsg ''roomCode'' = JStr ([CHR 0xA0] @ '' valve-ssss '' @ [CHR 0x09])"
    by (simp add: joinPaddedMsg_def)
  have "list_all isWhiteSpace [CHR 0xA0] \<and> list_all isWhiteSpace [CHR 0x09]"
    by (simp add: isWhiteSpace_def)
  with th have "toUpperCase (trim ([CHR 0xA0] @ '' valve-ssss '' @ [CHR 0x09])) = Some ''VALVE-SSSS''"
    by blast
  then have "fld joinPaddedMsg ''type'' = JStr ''join_room'' \<and>
        fld joinPaddedMsg ''playerName'' = fld joinMsg ''playerName'' \<and>
        fld joinPaddedMsg ''roomCode'' = JStr ([CHR 0xA0] @ '' valve-ssss '' @ [CHR 0x09]) \<and>
        [CHR 0xA0] @ '' valve-ssss '' @ [CHR 0x09] \<noteq> [] \<and>
        toUpperCase (trim ([CHR 0xA0] @ '' valve-ssss '' @ [CHR 0x09])) = Some ''VALVE-SSSS''"
    by (simp add: joinPaddedMsg_def joinMsg_def)
  with th have 5: "handleMsg envA 1 joinPaddedMsg (onConnection 1 created)
     = handleMsg envA 1 joinMsg (onConnection 1 created)"
    by blast
  have "fld reconnectSpacedMsg ''type'' = JStr ''reconnect'' \<and>
        fld reconnectSpacedMsg ''roomCode'' = JStr '' valve-ssss ''"
    and "Option.bind (toUpperCase '' valve-ssss '') (map_of (db_rooms (onConnection 1 created))) = None"
    by (simp_all add: reconnectSpacedMsg_def onConnection_def created_eq upper_ssss)
  with th have 3: "handleMsg envA 1 reconnectSpacedMsg (onConnection 1 created) = Inr (onConnection 1 created)"
    by blast
  have "fld reconnectPlayerMsg ''type'' = JStr ''reconnect'' \<and>
        fld reconnectPlayerMsg ''roomCode'' = JStr ''valve-ssss''"
    and "''valve-ssss'' \<noteq> [] \<and> toUpperCase ''valve-ssss'' = Some ''VALVE-SSSS'' \<and>
         map_of (db_rooms (onConnection 1 created)) ''VALVE-SSSS'' \<noteq> None"
    by (simp_all add: reconnectPlayerMsg_def onConnection_def created_eq upper_ssss)
  with th have 4: "\<exists>s'. handleMsg envA 1 reconnectPlayerMsg (onConnection 1 created) = Inr s' \<and>
      roomCode (conns s' 1) = Some ''VALVE-SSSS''"
    by blast
  have sc: "fld reconnectSharpMsg ''roomCode'' = JStr (''valve-'' @ [CHR 0xDF] @ ''ss'')"
    by (simp add: reconnectSharpMsg_def)
  have "fld reconnectSharpMsg ''type'' = JStr ''reconnect'' \<and>
        fld reconnectSharpMsg ''roomCode'' = JStr (''valve-'' @ [CHR 0xDF] @ ''ss'')"
    and "''valve-'' @ [CHR 0xDF] @ ''ss'' \<noteq> [] \<and>
         toUpperCase (''valve-'' @ [CHR 0xDF] @ ''ss'') = Some ''VALVE-SSSS'' \<and>
         map_of (db_rooms (onConnection 1 created)) ''VALVE-SSSS'' \<noteq> None"
    by (simp_all add: reconnectSharpMsg_def onConnection_def created_eq toUpperCase.simps
        toUpperCaseChar_def char_of_eq_iff)
  with th have 6: "\<exists>s'. handleMsg envA 1 reconnectSharpMsg (onConnection 1 created) = Inr s' \<and>
      roomCode (conns s' 1) = Some ''VALVE-SSSS''"
    by blast
  show ?thesis
    by (intro conjI jt jc jn normalize_ssss jk 1 2 pc 5 3 4 sc 6)
qed

end
